theory Spec2Isabelle
  imports Complex_Main
begin

section \<open>Data model (model.ts)\<close>

text \<open>
  A JavaScript \<open>number\<close> is modelled as a \<open>real\<close>: arithmetic is exact, and a value
  that is no real number (a division by zero, an unset coordinate) is an error branch
  of the model. The one computation whose result is compared with a threshold, the
  distance of a point from a line, is modelled in the rounded arithmetic of IEEE doubles
  instead. An optional field (\<open>x?: number\<close>) is an \<open>option\<close>.

  The fields \<open>x\<close>, \<open>y\<close> of \<open>Point\<close> are \<open>px\<close>, \<open>py\<close> here, those of the class
  \<open>Vector\<close> are \<open>vx\<close>, \<open>vy\<close>, and \<open>id\<close>, \<open>x\<close>, \<open>y\<close> of \<open>Node\<close> are \<open>node_id\<close>,
  \<open>node_x\<close>, \<open>node_y\<close>, so that the short names stay free for variables.
\<close>

record point =
  px :: real
  py :: real

record node =
  node_id :: string
  node_x :: "real option"
  node_y :: "real option"
  width :: real
  height :: real

record edge =
  src :: node
  dest :: node
  points :: "point list"

datatype RankDirection = TOP_TO_BOTTOM | BOTTOM_TO_TOP | LEFT_TO_RIGHT | RIGHT_TO_LEFT

text \<open>Of \<open>LayoutOptions\<close> only \<open>rankDirection\<close> is read by paths.ts; it is optional.\<close>

record layoutOptions =
  rankDirection :: "RankDirection option"

text \<open>
  The ways a call can leave the real-valued model: the \<open>RangeError\<close> that
  \<open>trianglePoints\<close> throws, the \<open>TypeError\<close> of reading a property of \<open>undefined\<close>,
  the \<open>ReferenceError\<close> that the constructor of the camera throws, a division whose
  divisor is zero, and arithmetic on an unset (\<open>undefined\<close>) position.
\<close>

datatype error = RangeError | TypeError | ReferenceError | DivisionByZero | UnsetPosition

section \<open>JavaScript arrays and strings\<close>

text \<open>\<open>a[i]\<close>: \<open>undefined\<close> outside the array, also at index \<open>-1\<close>.\<close>

definition array_get :: "'a list \<Rightarrow> int \<Rightarrow> 'a option" where
  "array_get a i = (if 0 \<le> i \<and> i < int (length a) then Some (a ! nat i) else None)"

text \<open>
  An array that may have holes is a list of options. \<open>a.length = n\<close> truncates the
  array or extends it with holes; \<open>a[i] = v\<close> extends it with holes up to index \<open>i\<close>
  when \<open>i\<close> is beyond the end, and leaves the elements alone when \<open>i\<close> is negative.
\<close>

definition array_set_length :: "'a option list \<Rightarrow> nat \<Rightarrow> 'a option list" where
  "array_set_length a n = take n a @ replicate (n - length a) None"

definition array_set :: "'a option list \<Rightarrow> int \<Rightarrow> 'a \<Rightarrow> 'a option list" where
  "array_set a i v =
     (if i < 0 then a
      else if nat i < length a then a[nat i := Some v]
      else a @ replicate (nat i - length a) None @ [Some v])"

text \<open>\<open>parts.join(sep)\<close>.\<close>

fun join :: "string \<Rightarrow> string list \<Rightarrow> string" where
  "join sep [] = []"
| "join sep [s] = s"
| "join sep (s # t # ss) = s @ sep @ join sep (t # ss)"

text \<open>
  The conversion of a number to a string in a template literal is the language's, not
  the repository's: every function that builds a string takes it as the parameter
  \<open>fmt\<close>. \<open>intToString\<close> is the decimal notation of an integer, which is what
  JavaScript prints for an integer-valued number (below \<open>10^21\<close>).
\<close>

function natToString :: "nat \<Rightarrow> string" where
  "natToString n =
     (if n < 10 then [''0123456789'' ! n]
      else natToString (n div 10) @ [''0123456789'' ! (n mod 10)])"
  by pat_completeness auto
termination
  by (relation "measure id") auto

declare natToString.simps [simp del]

definition intToString :: "int \<Rightarrow> string" where
  "intToString i = (if i < 0 then ''-'' @ natToString (nat (- i)) else natToString (nat i))"

definition fmtInteger :: "real \<Rightarrow> string" where
  "fmtInteger r = intToString \<lfloor>r\<rfloor>"

section \<open>Geometry kernel (paths.ts, class Vector)\<close>

text \<open>
  \<open>Vector\<close> is mutable in the source; each mutating method is a function that returns
  the vector after the call. These are the methods that compute control points; the
  methods behind the distance test follow in the next section, on doubles.
\<close>

record vector =
  vx :: real
  vy :: real

definition invert :: "vector \<Rightarrow> vector" where
  "invert v = \<lparr>vx = vx v * (- 1), vy = vy v * (- 1)\<rparr>"

definition multiplyScalar :: "vector \<Rightarrow> real \<Rightarrow> vector" where
  "multiplyScalar v amount = \<lparr>vx = vx v * amount, vy = vy v * amount\<rparr>"

definition length_vector :: "vector \<Rightarrow> real" where
  "length_vector v = sqrt (vx v * vx v + vy v * vy v)"

text \<open>
  A division is checked: HOL's \<open>a / 0\<close> is \<open>0\<close>, JavaScript's is \<open>Infinity\<close> or
  \<open>NaN\<close>, which is no real number.
\<close>

definition divide_checked :: "real \<Rightarrow> real \<Rightarrow> error + real" where
  "divide_checked a b = (if b = 0 then Inl DivisionByZero else Inr (a / b))"

definition normalize_vector :: "vector \<Rightarrow> error + vector" where
  "normalize_vector v =
     (let len = length_vector v in
      case (if len = 0 then Inr 0 else divide_checked 1 len) of
        Inl e \<Rightarrow> Inl e
      | Inr multiplyBy \<Rightarrow> Inr (multiplyScalar v multiplyBy))"

text \<open>\<open>Math.round(r)\<close> is \<open>floor(r + 0.5)\<close>.\<close>

definition math_round :: "real \<Rightarrow> real" where
  "math_round r = of_int \<lfloor>r + 1 / 2\<rfloor>"

definition round_vector :: "vector \<Rightarrow> nat \<Rightarrow> vector" where
  "round_vector v numDecialPoints =
     (let scaleBy = 10 ^ numDecialPoints in
      \<lparr>vx = math_round (vx v * scaleBy) / scaleBy,
       vy = math_round (vy v * scaleBy) / scaleBy\<rparr>)"

definition createVectorBetweenPoints :: "point \<Rightarrow> point \<Rightarrow> vector" where
  "createVectorBetweenPoints p1 p2 = \<lparr>vx = px p2 - px p1, vy = py p2 - py p1\<rparr>"

definition createNewPointOffsetBy :: "point \<Rightarrow> vector \<Rightarrow> point" where
  "createNewPointOffsetBy p1 v = \<lparr>px = px p1 + vx v, py = py p1 + vy v\<rparr>"

section \<open>IEEE double arithmetic (the distance test)\<close>

text \<open>
  Whether a point is unimportant is decided by the comparison \<open>distance <= 20\<close>, and
  that comparison depends on how the language rounds: \<open>getDistanceFromLine\<close> and the
  operations of \<open>Vector\<close> it calls are therefore modelled in the arithmetic of IEEE 754
  doubles. A double is a finite real that the format can represent, an infinity or
  \<open>NaN\<close>; the sign of a zero is not distinguished (nothing below divides by a zero or
  looks at its sign).
\<close>

datatype double = Finite real | PosInf | NegInf | NaN

text \<open>Rounding to the nearest integer, ties to the even one.\<close>

definition round_half_even :: "real \<Rightarrow> int" where
  "round_half_even r =
     (let f = \<lfloor>r\<rfloor>; d = r - of_int f in
      if d < 1 / 2 then f
      else if 1 / 2 < d then f + 1
      else if even f then f else f + 1)"

text \<open>
  The nearest number with a significand of 53 bits: the exponent of the last place is
  that of the number less 52, and not below \<open>-1074\<close> (subnormal numbers).
\<close>

definition ulp_exponent :: "real \<Rightarrow> int" where
  "ulp_exponent r = max \<lfloor>log 2 \<bar>r\<bar>\<rfloor> (- 1022) - 52"

definition fl :: "real \<Rightarrow> real" where
  "fl r =
     (if r = 0 then 0
      else of_int (round_half_even (r / 2 powr of_int (ulp_exponent r)))
             * 2 powr of_int (ulp_exponent r))"

text \<open>The double that an exact result rounds to; beyond the largest double, an infinity.\<close>

definition to_double :: "real \<Rightarrow> double" where
  "to_double r =
     (let y = fl r in
      if 2 ^ 1024 \<le> y then PosInf
      else if y \<le> - (2 ^ 1024) then NegInf
      else Finite y)"

definition d_inf :: "bool \<Rightarrow> double" where
  "d_inf positive = (if positive then PosInf else NegInf)"

fun d_neg :: "double \<Rightarrow> double" where
  "d_neg (Finite a) = Finite (- a)"
| "d_neg PosInf = NegInf"
| "d_neg NegInf = PosInf"
| "d_neg NaN = NaN"

fun d_abs :: "double \<Rightarrow> double" where
  "d_abs (Finite a) = Finite \<bar>a\<bar>"
| "d_abs PosInf = PosInf"
| "d_abs NegInf = PosInf"
| "d_abs NaN = NaN"

fun d_add :: "double \<Rightarrow> double \<Rightarrow> double" where
  "d_add (Finite a) (Finite b) = to_double (a + b)"
| "d_add NaN _ = NaN"
| "d_add _ NaN = NaN"
| "d_add PosInf NegInf = NaN"
| "d_add NegInf PosInf = NaN"
| "d_add PosInf _ = PosInf"
| "d_add _ PosInf = PosInf"
| "d_add NegInf _ = NegInf"
| "d_add _ NegInf = NegInf"

definition d_sub :: "double \<Rightarrow> double \<Rightarrow> double" where
  "d_sub a b = d_add a (d_neg b)"

fun d_mul :: "double \<Rightarrow> double \<Rightarrow> double" where
  "d_mul (Finite a) (Finite b) = to_double (a * b)"
| "d_mul NaN _ = NaN"
| "d_mul _ NaN = NaN"
| "d_mul (Finite a) PosInf = (if a = 0 then NaN else d_inf (0 < a))"
| "d_mul (Finite a) NegInf = (if a = 0 then NaN else d_inf (a < 0))"
| "d_mul PosInf (Finite b) = (if b = 0 then NaN else d_inf (0 < b))"
| "d_mul NegInf (Finite b) = (if b = 0 then NaN else d_inf (b < 0))"
| "d_mul PosInf PosInf = PosInf"
| "d_mul NegInf NegInf = PosInf"
| "d_mul PosInf NegInf = NegInf"
| "d_mul NegInf PosInf = NegInf"

fun d_div :: "double \<Rightarrow> double \<Rightarrow> double" where
  "d_div (Finite a) (Finite b) =
     (if b = 0 then (if a = 0 then NaN else d_inf (0 < a)) else to_double (a / b))"
| "d_div NaN _ = NaN"
| "d_div _ NaN = NaN"
| "d_div (Finite a) _ = Finite 0"
| "d_div PosInf (Finite b) = d_inf (0 \<le> b)"
| "d_div NegInf (Finite b) = d_inf (b < 0)"
| "d_div _ _ = NaN"

text \<open>\<open>Math.sqrt\<close> is correctly rounded.\<close>

fun d_sqrt :: "double \<Rightarrow> double" where
  "d_sqrt (Finite a) = (if a < 0 then NaN else Finite (fl (sqrt a)))"
| "d_sqrt PosInf = PosInf"
| "d_sqrt NegInf = NaN"
| "d_sqrt NaN = NaN"

text \<open>\<open>a <= b\<close>: false when either side is \<open>NaN\<close>.\<close>

fun d_le :: "double \<Rightarrow> double \<Rightarrow> bool" where
  "d_le (Finite a) (Finite b) = (a \<le> b)"
| "d_le NaN _ = False"
| "d_le _ NaN = False"
| "d_le NegInf _ = True"
| "d_le _ PosInf = True"
| "d_le _ _ = False"

text \<open>
  The class \<open>Vector\<close> on doubles, for the methods that \<open>getDistanceFromLine\<close> calls.
  The coordinates of a point are doubles already.
\<close>

record vector_double =
  dvx :: double
  dvy :: double

definition createVectorBetweenPoints_double :: "point \<Rightarrow> point \<Rightarrow> vector_double" where
  "createVectorBetweenPoints_double p1 p2 =
     \<lparr>dvx = d_sub (Finite (px p2)) (Finite (px p1)),
      dvy = d_sub (Finite (py p2)) (Finite (py p1))\<rparr>"

definition createPerpendicularVector_double :: "vector_double \<Rightarrow> vector_double" where
  "createPerpendicularVector_double v = \<lparr>dvx = d_neg (dvy v), dvy = dvx v\<rparr>"

definition multiplyScalar_double :: "vector_double \<Rightarrow> double \<Rightarrow> vector_double" where
  "multiplyScalar_double v amount = \<lparr>dvx = d_mul (dvx v) amount, dvy = d_mul (dvy v) amount\<rparr>"

definition dot_double :: "vector_double \<Rightarrow> vector_double \<Rightarrow> double" where
  "dot_double v other = d_add (d_mul (dvx v) (dvx other)) (d_mul (dvy v) (dvy other))"

definition length_double :: "vector_double \<Rightarrow> double" where
  "length_double v = d_sqrt (d_add (d_mul (dvx v) (dvx v)) (d_mul (dvy v) (dvy v)))"

definition normalize_double :: "vector_double \<Rightarrow> vector_double" where
  "normalize_double v =
     (let len = length_double v;
          multiplyBy = (if len = Finite 0 then Finite 0 else d_div (Finite 1) len)
      in multiplyScalar_double v multiplyBy)"

definition getDistanceFromLine :: "point \<Rightarrow> point \<Rightarrow> point \<Rightarrow> double" where
  "getDistanceFromLine lineStart lineEnd p =
     (let line = normalize_double (createVectorBetweenPoints_double lineStart lineEnd);
          perpendicularLine = createPerpendicularVector_double line;
          toProject = createVectorBetweenPoints_double lineStart p;
          distance = dot_double toProject perpendicularLine
      in d_abs distance)"

section \<open>Polylines (paths.ts, pointsToLines)\<close>

definition pointsToLines :: "(real \<Rightarrow> string) \<Rightarrow> point list option \<Rightarrow> string" where
  "pointsToLines fmt pointsArg =
     (case pointsArg of
        None \<Rightarrow> ''''
      | Some ps \<Rightarrow>
          if length ps < 2 then ''''
          else (let coords = map (\<lambda>p. fmt (px p) @ '','' @ fmt (py p)) ps;
                    joinedCoords = join '' '' coords
                in ''M '' @ joinedCoords))"

section \<open>Path smoothing (paths.ts)\<close>

definition LAYOUT_CURVE_FORCE_PX :: real where
  "LAYOUT_CURVE_FORCE_PX = 20"

definition SMOOTH_CURVE_FORCE_PX :: real where
  "SMOOTH_CURVE_FORCE_PX = 2"

definition UNIMPORTANT_POINT_DISTANCE_THRESHOLD_PX :: real where
  "UNIMPORTANT_POINT_DISTANCE_THRESHOLD_PX = 20"

record pathPointData =
  point :: point
  incomingControlPoint :: point
  outgoingControlPoint :: point

text \<open>The fields \<open>input\<close> and \<open>output\<close> of the object that \<open>getConnectorPointsForNode\<close> returns.\<close>

record connectorPoints =
  connInput :: point
  connOutput :: point

text \<open>An unset or unknown \<open>rankDirection\<close> takes the \<open>default\<close> label of the switch.\<close>

definition getLayoutVector :: "layoutOptions \<Rightarrow> vector" where
  "getLayoutVector l =
     (case rankDirection l of
        Some LEFT_TO_RIGHT \<Rightarrow> \<lparr>vx = 1, vy = 0\<rparr>
      | Some RIGHT_TO_LEFT \<Rightarrow> \<lparr>vx = - 1, vy = 0\<rparr>
      | Some BOTTOM_TO_TOP \<Rightarrow> \<lparr>vx = 0, vy = - 1\<rparr>
      | _ \<Rightarrow> \<lparr>vx = 0, vy = 1\<rparr>)"

text \<open>
  \<open>node.x!\<close> and \<open>node.y!\<close> assert that the position is set. On an unset position
  JavaScript goes on with \<open>undefined\<close> and \<open>NaN\<close> coordinates, which are no real
  numbers: the model returns \<open>UnsetPosition\<close>.
\<close>

definition getConnectorPointsForNode :: "node \<Rightarrow> layoutOptions \<Rightarrow> error + connectorPoints" where
  "getConnectorPointsForNode n l =
     (case (node_x n, node_y n) of
        (Some cx, Some cy) \<Rightarrow>
          (let center = \<lparr>px = cx, py = cy\<rparr> in
           Inr (case rankDirection l of
                  Some LEFT_TO_RIGHT \<Rightarrow>
                    \<lparr>connInput = center\<lparr>px := px center - width n / 2\<rparr>,
                     connOutput = center\<lparr>px := px center + width n / 2\<rparr>\<rparr>
                | Some RIGHT_TO_LEFT \<Rightarrow>
                    \<lparr>connInput = center\<lparr>px := px center + width n / 2\<rparr>,
                     connOutput = center\<lparr>px := px center - width n / 2\<rparr>\<rparr>
                | Some BOTTOM_TO_TOP \<Rightarrow>
                    \<lparr>connInput = center\<lparr>py := py center + height n / 2\<rparr>,
                     connOutput = center\<lparr>py := py center - height n / 2\<rparr>\<rparr>
                | _ \<Rightarrow>
                    \<lparr>connInput = center\<lparr>py := py center - height n / 2\<rparr>,
                     connOutput = center\<lparr>py := py center + height n / 2\<rparr>\<rparr>))
      | _ \<Rightarrow> Inl UnsetPosition)"

definition isLineGoingBackwards :: "point \<Rightarrow> point \<Rightarrow> vector \<Rightarrow> bool" where
  "isLineGoingBackwards p1 p2 layoutDirection =
     (let delta0 = createVectorBetweenPoints p1 p2;
          delta1 = delta0\<lparr>vx := vx delta0 * vx layoutDirection\<rparr>;
          delta2 = delta1\<lparr>vy := vy delta1 * vy layoutDirection\<rparr>
      in vx delta2 < 0 \<or> vy delta2 < 0)"

text \<open>
  The loop of \<open>doesPathGoBackwards\<close>, from index \<open>i\<close> on. Its guard
  \<open>i < points.length - 1\<close> keeps both reads inside the array.
\<close>

function doesPathGoBackwards_loop :: "point list \<Rightarrow> vector \<Rightarrow> nat \<Rightarrow> bool" where
  "doesPathGoBackwards_loop ps layoutDirection i =
     (if int i < int (length ps) - 1 then
        (let point1 = ps ! i; point2 = ps ! (i + 1) in
         if isLineGoingBackwards point1 point2 layoutDirection then True
         else doesPathGoBackwards_loop ps layoutDirection (i + 1))
      else False)"
  by pat_completeness auto
termination
  by (relation "measure (\<lambda>(ps, d, i). length ps - i)") auto

declare doesPathGoBackwards_loop.simps [simp del]

definition doesPathGoBackwards :: "point list \<Rightarrow> layoutOptions \<Rightarrow> bool" where
  "doesPathGoBackwards ps l = doesPathGoBackwards_loop ps (getLayoutVector l) 0"

definition getLayoutCurvedControlPoints :: "point \<Rightarrow> layoutOptions \<Rightarrow> pathPointData" where
  "getLayoutCurvedControlPoints p l =
     (let layoutForce0 = getLayoutVector l;
          layoutForce1 = multiplyScalar layoutForce0 LAYOUT_CURVE_FORCE_PX;
          outgoing = createNewPointOffsetBy p layoutForce1;
          layoutForce2 = invert layoutForce1;
          incoming = createNewPointOffsetBy p layoutForce2
      in \<lparr>point = p, incomingControlPoint = incoming, outgoingControlPoint = outgoing\<rparr>)"

text \<open>
  \<open>points[i + 1] || point\<close>: a point is an object, so it is falsy only when the read
  is \<open>undefined\<close>. Reading a coordinate of \<open>undefined\<close> throws a \<open>TypeError\<close>.
\<close>

definition getSmoothedControlPoints :: "point list \<Rightarrow> nat \<Rightarrow> error + pathPointData" where
  "getSmoothedControlPoints ps i =
     (let pointRead = array_get ps (int i);
          next = (case array_get ps (int i + 1) of Some q \<Rightarrow> Some q | None \<Rightarrow> pointRead);
          prior = (case array_get ps (int i - 1) of Some q \<Rightarrow> Some q | None \<Rightarrow> pointRead)
      in case (prior, next, pointRead) of
           (Some pr, Some nx, Some p) \<Rightarrow>
             (case normalize_vector (createVectorBetweenPoints pr nx) of
                Inl e \<Rightarrow> Inl e
              | Inr smoothForce0 \<Rightarrow>
                  (let smoothForce1 = multiplyScalar smoothForce0 SMOOTH_CURVE_FORCE_PX;
                       smoothForce2 = round_vector smoothForce1 2;
                       outgoing = createNewPointOffsetBy p smoothForce2;
                       smoothForce3 = invert smoothForce2;
                       incoming = createNewPointOffsetBy p smoothForce3
                   in Inr \<lparr>point = p, incomingControlPoint = incoming,
                            outgoingControlPoint = outgoing\<rparr>))
         | _ \<Rightarrow> Inl TypeError)"

definition isPointUnimportant :: "point list \<Rightarrow> nat \<Rightarrow> error + bool" where
  "isPointUnimportant ps i =
     (let pointRead = array_get ps (int i);
          next = array_get ps (int i + 1);
          prior = array_get ps (int i - 1)
      in case (next, prior) of
           (Some nx, Some pr) \<Rightarrow>
             (case pointRead of
                None \<Rightarrow> Inl TypeError
              | Some p \<Rightarrow>
                  (let distance = getDistanceFromLine pr nx p in
                   Inr (d_le distance (Finite UNIMPORTANT_POINT_DISTANCE_THRESHOLD_PX))))
         | _ \<Rightarrow> Inr False)"

text \<open>The loop of \<open>createPointData\<close>, from index \<open>i\<close> on; an error ends it.\<close>

function createPointData_loop ::
  "point list \<Rightarrow> layoutOptions \<Rightarrow> bool \<Rightarrow> nat \<Rightarrow> pathPointData list
     \<Rightarrow> error + pathPointData list" where
  "createPointData_loop ps l goesBackwards i pointsData =
     (if i < length ps then
        (case (if goesBackwards then getSmoothedControlPoints ps i
               else (case isPointUnimportant ps i of
                       Inl e \<Rightarrow> Inl e
                     | Inr unimportant \<Rightarrow>
                         if unimportant then getSmoothedControlPoints ps i
                         else Inr (getLayoutCurvedControlPoints (ps ! i) l))) of
           Inl e \<Rightarrow> Inl e
         | Inr d \<Rightarrow> createPointData_loop ps l goesBackwards (i + 1) (pointsData @ [d]))
      else Inr pointsData)"
  by pat_completeness auto
termination
  by (relation "measure (\<lambda>(ps, l, b, i, acc). length ps - i)") auto

declare createPointData_loop.simps [simp del]

definition createPointData :: "point list \<Rightarrow> layoutOptions \<Rightarrow> error + pathPointData list" where
  "createPointData ps l =
     (let goesBackwards = doesPathGoBackwards ps l in
      createPointData_loop ps l goesBackwards 0 [])"

text \<open>
  The datum that the body of the loop of \<open>createPointData\<close> pushes at index \<open>i\<close>
  (used to state what the loop returns).
\<close>

definition pointDataAt :: "point list \<Rightarrow> layoutOptions \<Rightarrow> bool \<Rightarrow> nat \<Rightarrow> error + pathPointData" where
  "pointDataAt ps l goesBackwards i =
     (if goesBackwards then getSmoothedControlPoints ps i
      else (case isPointUnimportant ps i of
              Inl e \<Rightarrow> Inl e
            | Inr unimportant \<Rightarrow>
                if unimportant then getSmoothedControlPoints ps i
                else Inr (getLayoutCurvedControlPoints (ps ! i) l)))"

definition moveTo :: "(real \<Rightarrow> string) \<Rightarrow> point \<Rightarrow> string" where
  "moveTo fmt p = ''M '' @ fmt (px p) @ '','' @ fmt (py p)"

definition cubicBezierTo :: "(real \<Rightarrow> string) \<Rightarrow> point \<Rightarrow> point \<Rightarrow> point \<Rightarrow> string" where
  "cubicBezierTo fmt destPoint controlPoint1 controlPoint2 =
     (''C '' @ fmt (px controlPoint1) @ '','' @ fmt (py controlPoint1) @ '' '')
     @ (fmt (px controlPoint2) @ '','' @ fmt (py controlPoint2) @ '' '')
     @ (fmt (px destPoint) @ '','' @ fmt (py destPoint))"

function createPathFromPointData_loop ::
  "(real \<Rightarrow> string) \<Rightarrow> pathPointData list \<Rightarrow> nat \<Rightarrow> string list \<Rightarrow> string list" where
  "createPathFromPointData_loop fmt pointsData i segments =
     (if int i < int (length pointsData) - 1 then
        (let srcData = pointsData ! i;
             destData = pointsData ! (i + 1);
             cp1 = outgoingControlPoint srcData;
             cp2 = incomingControlPoint destData;
             segments1 = (if i = 0 then segments @ [moveTo fmt (point srcData)] else segments)
         in createPathFromPointData_loop fmt pointsData (i + 1)
              (segments1 @ [cubicBezierTo fmt (point destData) cp1 cp2]))
      else segments)"
  by pat_completeness auto
termination
  by (relation "measure (\<lambda>(f, ds, i, acc). length ds - i)") auto

declare createPathFromPointData_loop.simps [simp del]

definition createPathFromPointData :: "(real \<Rightarrow> string) \<Rightarrow> pathPointData list \<Rightarrow> string" where
  "createPathFromPointData fmt pointsData =
     join '' '' (createPathFromPointData_loop fmt pointsData 0 [])"

text \<open>
  The entry of \<open>curvedPath\<close> (the statements before \<open>createPointData\<close>): the state
  of \<open>edge.points\<close>, which the function changes in place, after the default of two
  slots for an empty array and the two writes of the connector points.
\<close>

definition curvedPathEntry :: "edge \<Rightarrow> layoutOptions \<Rightarrow> error + point option list" where
  "curvedPathEntry e l =
     (let points0 = map Some (points e);
          points1 = (if length points0 = 0 then array_set_length points0 2 else points0)
      in case getConnectorPointsForNode (src e) l of
           Inl er \<Rightarrow> Inl er
         | Inr srcConnectors \<Rightarrow>
             (case getConnectorPointsForNode (dest e) l of
                Inl er \<Rightarrow> Inl er
              | Inr destConnectors \<Rightarrow>
                  (let points2 = array_set points1 0 (connOutput srcConnectors);
                       points3 = array_set points2 (int (length points2) - 1)
                                   (connInput destConnectors)
                   in Inr points3)))"

text \<open>
  \<open>curvedPath\<close>; an omitted \<open>layout\<close> argument is \<open>LEFT_TO_RIGHT\<close>. A hole left
  in the array would be read as \<open>undefined\<close> by \<open>createPointData\<close>.
\<close>

definition curvedPath :: "(real \<Rightarrow> string) \<Rightarrow> edge \<Rightarrow> layoutOptions option \<Rightarrow> error + string" where
  "curvedPath fmt e layoutArg =
     (let l = (case layoutArg of
                 None \<Rightarrow> \<lparr>rankDirection = Some LEFT_TO_RIGHT\<rparr>
               | Some given \<Rightarrow> given)
      in case curvedPathEntry e l of
           Inl er \<Rightarrow> Inl er
         | Inr slots \<Rightarrow>
             (case those slots of
                None \<Rightarrow> Inl TypeError
              | Some ps \<Rightarrow>
                  (case createPointData ps l of
                     Inl er \<Rightarrow> Inl er
                   | Inr pointsData \<Rightarrow> Inr (createPathFromPointData fmt pointsData))))"

section \<open>Arrow tips (paths.ts, trianglePoints)\<close>

text \<open>\<open>!v\<close> on an optional number: true for \<open>undefined\<close> and for \<open>0\<close>.\<close>

definition falsy :: "real option \<Rightarrow> bool" where
  "falsy v = (case v of None \<Rightarrow> True | Some r \<Rightarrow> r = 0)"

definition trianglePoints :: "(real \<Rightarrow> string) \<Rightarrow> edge \<Rightarrow> layoutOptions \<Rightarrow> error + string" where
  "trianglePoints fmt e l =
     (let triangleSideLength = (10 :: real);
          triangleHeightRatio = (86602540378 / 100000000000 :: real)
      in if falsy (node_x (dest e)) \<or> falsy (node_y (dest e)) then Inl RangeError
         else (case (node_x (dest e), node_y (dest e)) of
                 (Some cx, Some cy) \<Rightarrow>
                   (let center = \<lparr>px = cx, py = cy\<rparr>;
                        tri =
                          (case rankDirection l of
                             Some LEFT_TO_RIGHT \<Rightarrow>
                               (let connector = center\<lparr>px := px center - width (dest e) / 2\<rparr> in
                                [connector,
                                 \<lparr>px = px connector - triangleSideLength * triangleHeightRatio,
                                  py = py connector - triangleSideLength / 2\<rparr>,
                                 \<lparr>px = px connector - triangleSideLength * triangleHeightRatio,
                                  py = py connector + triangleSideLength / 2\<rparr>])
                           | Some RIGHT_TO_LEFT \<Rightarrow>
                               (let connector = center\<lparr>px := px center + width (dest e) / 2\<rparr> in
                                [connector,
                                 \<lparr>px = px connector + triangleSideLength * triangleHeightRatio,
                                  py = py connector - triangleSideLength / 2\<rparr>,
                                 \<lparr>px = px connector + triangleSideLength * triangleHeightRatio,
                                  py = py connector + triangleSideLength / 2\<rparr>])
                           | Some TOP_TO_BOTTOM \<Rightarrow>
                               (let connector = center\<lparr>py := py center - height (dest e) / 2\<rparr> in
                                [connector,
                                 \<lparr>px = px connector - triangleSideLength / 2,
                                  py = py connector - triangleSideLength * triangleHeightRatio\<rparr>,
                                 \<lparr>px = px connector + triangleSideLength / 2,
                                  py = py connector - triangleSideLength * triangleHeightRatio\<rparr>])
                           | _ \<Rightarrow>
                               (let connector = center\<lparr>py := py center + height (dest e) / 2\<rparr> in
                                [connector,
                                 \<lparr>px = px connector - triangleSideLength / 2,
                                  py = py connector + triangleSideLength * triangleHeightRatio\<rparr>,
                                 \<lparr>px = px connector + triangleSideLength / 2,
                                  py = py connector + triangleSideLength * triangleHeightRatio\<rparr>]))
                    in Inr (join '' '' (map (\<lambda>p. fmt (px p) @ '','' @ fmt (py p)) tri)))
               | _ \<Rightarrow> Inl RangeError))"

section \<open>Camera (graph_camera.ts)\<close>

definition FIT_PADDING_PERCENT :: real where
  "FIT_PADDING_PERCENT = 4 / 100"

definition ZOOM_SENSITIVITY :: real where
  "ZOOM_SENSITIVITY = 4 / 10"

definition MAC_ZOOM_SENSITIVITY :: real where
  "MAC_ZOOM_SENSITIVITY = 9 / 100"

text \<open>
  The options object that the constructor passes to \<open>svgPanZoom\<close>. The \<open>onPan\<close>
  callback, which forwards the point to the camera's event emitter, is left out.
\<close>

record panZoomOptions =
  opt_fit :: bool
  opt_contain :: bool
  opt_center :: bool
  zoomScaleSensitivity :: real
  mouseWheelZoomEnabled :: "bool option"
  panEnabled :: bool
  minZoom :: real
  maxZoom :: real
  preventMouseEventsDefault :: bool
  beforePan :: "point \<Rightarrow> point \<Rightarrow> point"

text \<open>What \<open>getSizes()\<close> of the engine returns.\<close>

record sizesProvided =
  sz_width :: real
  sz_height :: real
  sz_realZoom :: real
  viewBox_x :: real
  viewBox_y :: real
  viewBox_width :: real
  viewBox_height :: real

text \<open>
  The pan-zoom engine (\<open>SvgPanZoom.Instance\<close>) is a third-party library. Its state
  is the type parameter \<open>'e\<close>, and its operations are the parameter \<open>api\<close> of every
  function of the camera: nothing is assumed about what they do.
\<close>

record 'e panZoomApi =
  svgPanZoom :: "panZoomOptions \<Rightarrow> 'e"
  pz_getPan :: "'e \<Rightarrow> point"
  pz_getZoom :: "'e \<Rightarrow> real"
  pz_getSizes :: "'e \<Rightarrow> sizesProvided"
  pz_pan :: "point \<Rightarrow> 'e \<Rightarrow> 'e"
  pz_zoom :: "real \<Rightarrow> 'e \<Rightarrow> 'e"
  pz_updateBBox :: "'e \<Rightarrow> 'e"
  pz_resize :: "'e \<Rightarrow> 'e"
  pz_center :: "'e \<Rightarrow> 'e"
  pz_fit :: "'e \<Rightarrow> 'e"
  pz_destroy :: "'e \<Rightarrow> 'e"

text \<open>
  An animation started by \<open>animateOver\<close>: the time of the start, the duration, and the
  callback, which acts on the engine. It is the closure that the returned stop function
  shares with \<open>frameFn\<close>, while \<open>handle\<close> holds a requested frame.
\<close>

record 'e animation =
  anim_start :: real
  anim_durationMs :: real
  anim_callback :: "real \<Rightarrow> 'e \<Rightarrow> 'e"

text \<open>
  The state of a \<open>GraphCamera\<close>. Each of the three fields \<open>stopSmooth...Fn\<close> holds the
  animation that a call of the stop function would cancel: \<open>None\<close> for the initial
  \<open>() => {}\<close> and for an animation whose \<open>handle\<close> is \<open>undefined\<close> (finished or
  stopped), \<open>Some a\<close> while a frame of \<open>a\<close> is requested. Calling the stop function
  sets the field to \<open>None\<close>.
\<close>

record 'e camera =
  panZoom :: 'e
  resizeSub :: bool
  onPanCompleted :: bool
  stopSmoothPanFn :: "'e animation option"
  stopSmoothZoomFn :: "'e animation option"
  stopSmoothPanAndZoomFn :: "'e animation option"

text \<open>
  \<open>CameraOptions\<close>: whether \<open>svgEl\<close> has a root \<open>g\<close> element, whether \<open>windowRef\<close>
  is given, and the two optional flags.
\<close>

record cameraOptions =
  co_svgElHasRootG :: bool
  co_windowRef :: bool
  co_autoResetOnWindowResize :: "bool option"
  co_mouseWheelZoomEnabled :: "bool option"

definition easeInAndOut :: "real \<Rightarrow> real" where
  "easeInAndOut t = 3 * t * t - 2 * t * t * t"

definition animateOver :: "real \<Rightarrow> real \<Rightarrow> (real \<Rightarrow> 'e \<Rightarrow> 'e) \<Rightarrow> 'e animation" where
  "animateOver now durationMs callback =
     \<lparr>anim_start = now, anim_durationMs = durationMs, anim_callback = callback\<rparr>"

text \<open>
  \<open>easeInAndOut(Math.min(progressMs / durationMs, 1))\<close>. With a duration of 0 the
  quotient is \<open>Infinity\<close> for a positive \<open>progressMs\<close>, whose minimum with 1 is 1,
  and no real number otherwise.
\<close>

definition frameProgress :: "real \<Rightarrow> real \<Rightarrow> error + real" where
  "frameProgress progressMs durationMs =
     (if durationMs = 0 then
        (if 0 < progressMs then Inr (easeInAndOut 1) else Inl DivisionByZero)
      else Inr (easeInAndOut (min (progressMs / durationMs) 1)))"

text \<open>
  One run of \<open>frameFn\<close> at the time \<open>now\<close>: the engine after the callback, and the
  animation if another frame is requested.
\<close>

definition frameFn :: "real \<Rightarrow> 'e animation \<Rightarrow> 'e \<Rightarrow> error + ('e \<times> 'e animation option)" where
  "frameFn now a e =
     (let progressMs = now - anim_start a in
      case frameProgress progressMs (anim_durationMs a) of
        Inl er \<Rightarrow> Inl er
      | Inr progress \<Rightarrow>
          Inr (anim_callback a progress e,
               if progressMs < anim_durationMs a then Some a else None))"

text \<open>The frame of the animation of each channel, when the browser runs it.\<close>

definition smoothPanFrame :: "real \<Rightarrow> 'e camera \<Rightarrow> error + 'e camera" where
  "smoothPanFrame now c =
     (case stopSmoothPanFn c of
        None \<Rightarrow> Inr c
      | Some a \<Rightarrow>
          (case frameFn now a (panZoom c) of
             Inl er \<Rightarrow> Inl er
           | Inr (e, h) \<Rightarrow> Inr (c\<lparr>panZoom := e, stopSmoothPanFn := h\<rparr>)))"

definition smoothZoomFrame :: "real \<Rightarrow> 'e camera \<Rightarrow> error + 'e camera" where
  "smoothZoomFrame now c =
     (case stopSmoothZoomFn c of
        None \<Rightarrow> Inr c
      | Some a \<Rightarrow>
          (case frameFn now a (panZoom c) of
             Inl er \<Rightarrow> Inl er
           | Inr (e, h) \<Rightarrow> Inr (c\<lparr>panZoom := e, stopSmoothZoomFn := h\<rparr>)))"

definition smoothPanAndZoomFrame :: "real \<Rightarrow> 'e camera \<Rightarrow> error + 'e camera" where
  "smoothPanAndZoomFrame now c =
     (case stopSmoothPanAndZoomFn c of
        None \<Rightarrow> Inr c
      | Some a \<Rightarrow>
          (case frameFn now a (panZoom c) of
             Inl er \<Rightarrow> Inl er
           | Inr (e, h) \<Rightarrow> Inr (c\<lparr>panZoom := e, stopSmoothPanAndZoomFn := h\<rparr>)))"

text \<open>The \<open>beforePan\<close> hook of the constructor.\<close>

definition beforePanHook :: "point \<Rightarrow> point \<Rightarrow> point" where
  "beforePanHook oldPoint p = \<lparr>px = math_round (px p), py = math_round (py p)\<rparr>"

definition fitWithoutZoomingIn :: "'e panZoomApi \<Rightarrow> 'e \<Rightarrow> 'e" where
  "fitWithoutZoomingIn api e =
     (let e1 = pz_fit api e in
      if pz_getZoom api e1 > 1 then pz_zoom api 1 e1
      else (let currentZoom = pz_getZoom api e1;
                zoomAdjustedForPadding = currentZoom * (1 - FIT_PADDING_PERCENT)
            in pz_zoom api zoomAdjustedForPadding e1))"

definition reset :: "'e panZoomApi \<Rightarrow> 'e camera \<Rightarrow> 'e camera" where
  "reset api c =
     (let c1 = c\<lparr>stopSmoothPanFn := None\<rparr>;
          c2 = c1\<lparr>stopSmoothZoomFn := None\<rparr>;
          e1 = pz_updateBBox api (panZoom c2);
          e2 = pz_resize api e1;
          e3 = pz_center api e2
      in c2\<lparr>panZoom := fitWithoutZoomingIn api e3\<rparr>)"

text \<open>
  The constructor, and the options object it passes to \<open>svgPanZoom\<close>. \<open>isMac\<close> is \<open>navigator.userAgent.includes('Macintosh')\<close>. The
  subscription to the resize events, which calls \<open>reset\<close> after a debounce, is the
  flag \<open>resizeSub\<close>.
\<close>

definition panZoomOptionsOf :: "bool \<Rightarrow> cameraOptions \<Rightarrow> panZoomOptions" where
  "panZoomOptionsOf isMac options =
     \<lparr>opt_fit = False, opt_contain = False, opt_center = True,
      zoomScaleSensitivity = (if isMac then MAC_ZOOM_SENSITIVITY else ZOOM_SENSITIVITY),
      mouseWheelZoomEnabled = co_mouseWheelZoomEnabled options,
      panEnabled = True, minZoom = 1 / 10, maxZoom = 2,
      preventMouseEventsDefault = False,
      beforePan = beforePanHook\<rparr>"

definition newGraphCamera :: "'e panZoomApi \<Rightarrow> bool \<Rightarrow> cameraOptions \<Rightarrow> error + 'e camera" where
  "newGraphCamera api isMac options =
     (if \<not> co_svgElHasRootG options then Inl ReferenceError
      else
        (let e = svgPanZoom api (panZoomOptionsOf isMac options);
             c = reset api
                   \<lparr>panZoom = e, resizeSub = False, onPanCompleted = False,
                    stopSmoothPanFn = None, stopSmoothZoomFn = None,
                    stopSmoothPanAndZoomFn = None\<rparr>
         in if co_autoResetOnWindowResize options = Some True then
              (if \<not> co_windowRef options then Inl ReferenceError
               else Inr (c\<lparr>resizeSub := True\<rparr>))
            else Inr c))"

definition destroy :: "'e panZoomApi \<Rightarrow> 'e camera \<Rightarrow> 'e camera" where
  "destroy api c =
     (let c1 = (if resizeSub c then c\<lparr>resizeSub := False\<rparr> else c);
          c2 = c1\<lparr>stopSmoothPanFn := None\<rparr>;
          c3 = c2\<lparr>stopSmoothZoomFn := None\<rparr>;
          c4 = c3\<lparr>onPanCompleted := True\<rparr>
      in c4\<lparr>panZoom := pz_destroy api (panZoom c4)\<rparr>)"

definition getPan :: "'e panZoomApi \<Rightarrow> 'e camera \<Rightarrow> point" where
  "getPan api c = pz_getPan api (panZoom c)"

definition getZoom :: "'e panZoomApi \<Rightarrow> 'e camera \<Rightarrow> real" where
  "getZoom api c = pz_getZoom api (panZoom c)"

definition pan :: "'e panZoomApi \<Rightarrow> point \<Rightarrow> 'e camera \<Rightarrow> 'e camera" where
  "pan api p c = c\<lparr>panZoom := pz_pan api p (panZoom c)\<rparr>"

definition zoom :: "'e panZoomApi \<Rightarrow> real \<Rightarrow> 'e camera \<Rightarrow> 'e camera" where
  "zoom api zoomLevel c = c\<lparr>panZoom := pz_zoom api zoomLevel (panZoom c)\<rparr>"

text \<open>An omitted \<open>durationMs\<close> is 250.\<close>

definition durationOrDefault :: "real option \<Rightarrow> real" where
  "durationOrDefault durationArg = (case durationArg of None \<Rightarrow> 250 | Some d \<Rightarrow> d)"

definition smoothPan :: "'e panZoomApi \<Rightarrow> real \<Rightarrow> point \<Rightarrow> real option \<Rightarrow> 'e camera \<Rightarrow> 'e camera" where
  "smoothPan api now p durationArg c =
     (let c1 = c\<lparr>stopSmoothPanFn := None\<rparr>;
          startX = px (pz_getPan api (panZoom c1));
          startY = py (pz_getPan api (panZoom c1));
          panByX = px p - startX;
          panByY = py p - startY
      in c1\<lparr>stopSmoothPanFn :=
             Some (animateOver now (durationOrDefault durationArg)
                     (\<lambda>progress.
                        (let targetX = startX + progress * panByX;
                             targetY = startY + progress * panByY
                         in pz_pan api \<lparr>px = targetX, py = targetY\<rparr>)))\<rparr>)"

definition smoothZoom :: "'e panZoomApi \<Rightarrow> real \<Rightarrow> real \<Rightarrow> real option \<Rightarrow> 'e camera \<Rightarrow> 'e camera" where
  "smoothZoom api now zoomLevel durationArg c =
     (let c1 = c\<lparr>stopSmoothZoomFn := None\<rparr>;
          startZoom = pz_getZoom api (panZoom c1);
          zoomBy = zoomLevel - startZoom
      in c1\<lparr>stopSmoothZoomFn :=
             Some (animateOver now (durationOrDefault durationArg)
                     (\<lambda>progress.
                        (let targetZoom = startZoom + progress * zoomBy
                         in pz_zoom api targetZoom)))\<rparr>)"

definition smoothPanAndZoom ::
  "'e panZoomApi \<Rightarrow> real \<Rightarrow> point \<Rightarrow> real \<Rightarrow> real option \<Rightarrow> 'e camera \<Rightarrow> 'e camera" where
  "smoothPanAndZoom api now p zoomLevel durationArg c =
     (let c1 = c\<lparr>stopSmoothPanAndZoomFn := None\<rparr>;
          startX = px (pz_getPan api (panZoom c1));
          startY = py (pz_getPan api (panZoom c1));
          panByX = px p - startX;
          panByY = py p - startY;
          startZoom = pz_getZoom api (panZoom c1);
          zoomBy = zoomLevel - startZoom
      in c1\<lparr>stopSmoothPanAndZoomFn :=
             Some (animateOver now (durationOrDefault durationArg)
                     (\<lambda>progress e.
                        (let targetX = startX + progress * panByX;
                             targetY = startY + progress * panByY;
                             e1 = pz_pan api \<lparr>px = targetX, py = targetY\<rparr> e;
                             targetZoom = startZoom + progress * zoomBy
                         in pz_zoom api targetZoom e1)))\<rparr>)"

definition zoomIn :: "'e panZoomApi \<Rightarrow> real \<Rightarrow> 'e camera \<Rightarrow> 'e camera" where
  "zoomIn api now c =
     (let existing = pz_getZoom api (panZoom c);
          scale = 1 + ZOOM_SENSITIVITY;
          target = existing * scale
      in smoothZoom api now target None c)"

definition zoomOut :: "'e panZoomApi \<Rightarrow> real \<Rightarrow> 'e camera \<Rightarrow> 'e camera" where
  "zoomOut api now c =
     (let existing = pz_getZoom api (panZoom c);
          scale = 1 / (1 + ZOOM_SENSITIVITY);
          target = existing * scale
      in smoothZoom api now target None c)"

text \<open>
  \<open>smoothReset\<close> with \<open>smoothCenterAndFitWithoutZoomingIn\<close>, the only caller of
  \<open>smoothPanAndZoom\<close> inside the class.
\<close>

definition smoothCenterAndFitWithoutZoomingIn ::
  "'e panZoomApi \<Rightarrow> real \<Rightarrow> real \<Rightarrow> 'e camera \<Rightarrow> error + 'e camera" where
  "smoothCenterAndFitWithoutZoomingIn api now durationMs c =
     (let sizes = pz_getSizes api (panZoom c) in
      case divide_checked (sz_width sizes) (viewBox_width sizes) of
        Inl er \<Rightarrow> Inl er
      | Inr fitX \<Rightarrow>
          (case divide_checked (sz_height sizes) (viewBox_height sizes) of
             Inl er \<Rightarrow> Inl er
           | Inr fitY \<Rightarrow>
               (let newZoom0 = min fitX fitY;
                    newZoom = (if newZoom0 > 1 then 1
                               else newZoom0 * (1 - FIT_PADDING_PERCENT));
                    offsetX = (sz_width sizes
                                - (viewBox_width sizes + viewBox_x sizes * 2) * newZoom) * (1 / 2);
                    offsetY = (sz_height sizes
                                - (viewBox_height sizes + viewBox_y sizes * 2) * newZoom) * (1 / 2);
                    newPan = \<lparr>px = offsetX, py = offsetY\<rparr>
                in Inr (smoothPanAndZoom api now newPan newZoom (Some durationMs) c))))"

definition smoothReset :: "'e panZoomApi \<Rightarrow> real \<Rightarrow> real \<Rightarrow> 'e camera \<Rightarrow> error + 'e camera" where
  "smoothReset api now durationMs c =
     (let c1 = c\<lparr>stopSmoothPanFn := None\<rparr>;
          c2 = c1\<lparr>stopSmoothZoomFn := None\<rparr>;
          e1 = pz_updateBBox api (panZoom c2);
          e2 = pz_resize api e1
      in smoothCenterAndFitWithoutZoomingIn api now durationMs (c2\<lparr>panZoom := e2\<rparr>))"

text \<open>
  A stand-in engine, used only to evaluate the camera on concrete input: it stores the
  options it was created with and the pan and the zoom it is given.
\<close>

record standInEngine =
  se_options :: "panZoomOptions option"
  se_pan :: point
  se_zoom :: real
  se_destroyed :: bool

definition standInApi :: "standInEngine panZoomApi" where
  "standInApi =
     \<lparr>svgPanZoom = (\<lambda>opts. \<lparr>se_options = Some opts, se_pan = \<lparr>px = 0, py = 0\<rparr>,
                               se_zoom = 1, se_destroyed = False\<rparr>),
      pz_getPan = se_pan,
      pz_getZoom = se_zoom,
      pz_getSizes = (\<lambda>e. \<lparr>sz_width = 800, sz_height = 600, sz_realZoom = se_zoom e,
                              viewBox_x = 0, viewBox_y = 0,
                              viewBox_width = 1600, viewBox_height = 600\<rparr>),
      pz_pan = (\<lambda>p e. e\<lparr>se_pan := p\<rparr>),
      pz_zoom = (\<lambda>z e. e\<lparr>se_zoom := z\<rparr>),
      pz_updateBBox = (\<lambda>e. e),
      pz_resize = (\<lambda>e. e),
      pz_center = (\<lambda>e. e),
      pz_fit = (\<lambda>e. e),
      pz_destroy = (\<lambda>e. e\<lparr>se_destroyed := True\<rparr>)\<rparr>"

text \<open>
  Concrete input for the camera: options with a root \<open>g\<close> element and no automatic
  reset, the camera that the constructor builds from them on the stand-in engine
  (centred, zoom 0.96 after the reset), and that camera after \<open>smoothReset(1000)\<close> at
  time 0.
\<close>

definition exampleOptions :: cameraOptions where
  "exampleOptions =
     \<lparr>co_svgElHasRootG = True, co_windowRef = False,
      co_autoResetOnWindowResize = None, co_mouseWheelZoomEnabled = None\<rparr>"

definition exampleCamera :: "bool \<Rightarrow> standInEngine camera" where
  "exampleCamera isMac =
     \<lparr>panZoom = \<lparr>se_options = Some (panZoomOptionsOf isMac exampleOptions),
                  se_pan = \<lparr>px = 0, py = 0\<rparr>, se_zoom = 24 / 25, se_destroyed = False\<rparr>,
      resizeSub = False, onPanCompleted = False,
      stopSmoothPanFn = None, stopSmoothZoomFn = None, stopSmoothPanAndZoomFn = None\<rparr>"

definition exampleAnimating :: "standInEngine camera" where
  "exampleAnimating =
     smoothPanAndZoom standInApi 0 \<lparr>px = 16, py = 156\<rparr> (12 / 25) (Some 1000)
       (exampleCamera False)"

section \<open>Properties of the geometry kernel\<close>

lemma length_vector_zero_iff: "length_vector v = 0 \<longleftrightarrow> vx v = 0 \<and> vy v = 0"
  by (simp add: length_vector_def sum_squares_eq_zero_iff)

lemma normalize_Inr:
  "normalize_vector v =
     Inr (multiplyScalar v (if length_vector v = 0 then 0 else 1 / length_vector v))"
  by (simp add: normalize_vector_def divide_checked_def Let_def)

text \<open>
  C8: normalizing the zero vector yields the zero vector, the length of the zero vector
  is 0, and \<open>normalize_vector\<close> returns a vector for every vector: the division it makes
  never has a zero divisor.
\<close>

theorem normalize_zero_total:
  "normalize_vector \<lparr>vx = 0, vy = 0\<rparr> = Inr \<lparr>vx = 0, vy = 0\<rparr>
   \<and> length_vector \<lparr>vx = 0, vy = 0\<rparr> = 0
   \<and> (\<forall>v. \<exists>w. normalize_vector v = Inr w)"
  by (simp add: normalize_Inr multiplyScalar_def length_vector_def)

section \<open>Properties of polylines\<close>

lemma fmtInteger_0: "fmtInteger 0 = ''0''"
  by (simp add: fmtInteger_def intToString_def natToString.simps)

lemma fmtInteger_1: "fmtInteger 1 = ''1''"
  by (simp add: fmtInteger_def intToString_def natToString.simps)

lemma join_Cons: "join sep (s # ss) = s @ concat (map (\<lambda>t. sep @ t) ss)"
  by (induction ss arbitrary: s) simp_all

text \<open>
  C9: \<open>pointsToLines\<close> returns the empty string for a missing list and for every list
  of fewer than 2 points; for 2 or more points it returns \<open>M\<close>, the first point, and
  each further point after a single space, in order; and for a number formatter that
  prints 0 as \<open>0\<close> and 1 as \<open>1\<close>, \<open>pointsToLines([{0,0},{1,1}])\<close> is \<open>M 0,0 1,1\<close>.
\<close>

theorem pointsToLines_spec:
  "pointsToLines fmt None = ''''
   \<and> (\<forall>ps. length ps < 2 \<longrightarrow> pointsToLines fmt (Some ps) = '''')
   \<and> (\<forall>p q qs. pointsToLines fmt (Some (p # q # qs)) =
         ''M '' @ fmt (px p) @ '','' @ fmt (py p)
           @ concat (map (\<lambda>r. '' '' @ fmt (px r) @ '','' @ fmt (py r)) (q # qs)))
   \<and> (fmt 0 = ''0'' \<and> fmt 1 = ''1'' \<longrightarrow>
        pointsToLines fmt (Some [\<lparr>px = 0, py = 0\<rparr>, \<lparr>px = 1, py = 1\<rparr>]) = ''M 0,0 1,1'')"
  by (simp add: pointsToLines_def join_Cons comp_def del: join.simps)

theorem pointsToLines_spec_witness:
  "pointsToLines fmtInteger (Some []) = ''''
   \<and> pointsToLines fmtInteger (Some [\<lparr>px = 7, py = 3\<rparr>]) = ''''
   \<and> pointsToLines fmtInteger (Some [\<lparr>px = 0, py = 0\<rparr>, \<lparr>px = 1, py = 1\<rparr>]) = ''M 0,0 1,1''"
  using pointsToLines_spec [of fmtInteger] fmtInteger_0 fmtInteger_1
  by simp

section \<open>Properties of the path smoothing\<close>

lemma getSmoothedControlPoints_total:
  assumes "i < length ps"
  shows "\<exists>d. getSmoothedControlPoints ps i = Inr d \<and> point d = ps ! i"
  using assms
  by (simp add: getSmoothedControlPoints_def array_get_def normalize_Inr Let_def
      split: option.splits)

lemma isPointUnimportant_total: "\<exists>b. isPointUnimportant ps i = Inr b"
  by (auto simp: isPointUnimportant_def array_get_def Let_def split: option.splits if_splits)

lemma pointDataAt_total:
  assumes "i < length ps"
  shows "\<exists>d. pointDataAt ps l gb i = Inr d \<and> point d = ps ! i"
proof (cases gb)
  case True
  then show ?thesis
    using getSmoothedControlPoints_total [OF assms] by (simp add: pointDataAt_def)
next
  case False
  obtain b where b: "isPointUnimportant ps i = Inr b"
    using isPointUnimportant_total by blast
  show ?thesis
    using False b getSmoothedControlPoints_total [OF assms]
    by (simp add: pointDataAt_def getLayoutCurvedControlPoints_def Let_def)
qed

lemma createPointData_loop_step:
  "createPointData_loop ps l gb i acc =
     (if i < length ps then
        (case pointDataAt ps l gb i of
           Inl e \<Rightarrow> Inl e
         | Inr d \<Rightarrow> createPointData_loop ps l gb (i + 1) (acc @ [d]))
      else Inr acc)"
  by (subst createPointData_loop.simps) (simp add: pointDataAt_def)

lemma createPointData_loop_result:
  "i \<le> length ps \<Longrightarrow>
   \<exists>ds. createPointData_loop ps l gb i acc = Inr (acc @ ds)
        \<and> length ds = length ps - i
        \<and> (\<forall>k<length ds. pointDataAt ps l gb (i + k) = Inr (ds ! k))"
proof (induction "length ps - i" arbitrary: i acc)
  case 0
  then have "i = length ps" by simp
  then show ?case by (subst createPointData_loop_step) simp
next
  case (Suc n)
  then have lt: "i < length ps" by simp
  obtain d where d: "pointDataAt ps l gb i = Inr d"
    using pointDataAt_total [OF lt] by blast
  have "n = length ps - (i + 1)" using Suc.hyps(2) by simp
  moreover have "i + 1 \<le> length ps" using lt by simp
  ultimately obtain ds where ds:
    "createPointData_loop ps l gb (i + 1) (acc @ [d]) = Inr ((acc @ [d]) @ ds)"
    "length ds = length ps - (i + 1)"
    "\<forall>k<length ds. pointDataAt ps l gb (i + 1 + k) = Inr (ds ! k)"
    using Suc.hyps(1) [of "i + 1" "acc @ [d]"] by blast
  have step: "createPointData_loop ps l gb i acc = Inr (acc @ (d # ds))"
    using ds(1) by (subst createPointData_loop_step) (simp add: lt d)
  have len: "length (d # ds) = length ps - i"
    using ds(2) lt by simp
  have "pointDataAt ps l gb (i + k) = Inr ((d # ds) ! k)" if "k < length (d # ds)" for k
  proof (cases k)
    case 0
    then show ?thesis by (simp add: d)
  next
    case (Suc j)
    then have "j < length ds" using that by simp
    then show ?thesis using ds(3) Suc by simp
  qed
  then show ?case using step len by blast
qed

lemma createPointData_result:
  "\<exists>ds. createPointData ps l = Inr ds \<and> length ds = length ps
        \<and> (\<forall>k<length ps. pointDataAt ps l (doesPathGoBackwards ps l) k = Inr (ds ! k))"
  using createPointData_loop_result [of 0 ps l "doesPathGoBackwards ps l" "[]"]
  by (auto simp: createPointData_def Let_def)


lemma isLineGoingBackwards_iff:
  "isLineGoingBackwards p1 p2 d \<longleftrightarrow>
     (px p2 - px p1) * vx d < 0 \<or> (py p2 - py p1) * vy d < 0"
  by (simp add: isLineGoingBackwards_def createVectorBetweenPoints_def Let_def)

lemma doesPathGoBackwards_loop_iff:
  "doesPathGoBackwards_loop ps d i \<longleftrightarrow>
     (\<exists>j. i \<le> j \<and> j + 1 < length ps \<and> isLineGoingBackwards (ps ! j) (ps ! (j + 1)) d)"
proof (induction ps d i rule: doesPathGoBackwards_loop.induct)
  case (1 ps d i)
  show ?case
  proof (cases "i + 1 < length ps")
    case False
    then show ?thesis
      by (subst doesPathGoBackwards_loop.simps) auto
  next
    case inside: True
    show ?thesis
    proof (cases "isLineGoingBackwards (ps ! i) (ps ! (i + 1)) d")
      case True
      then show ?thesis
        using inside by (subst doesPathGoBackwards_loop.simps) (auto simp: Let_def)
    next
      case False
      have guard: "int i < int (length ps) - 1" using inside by simp
      have ih: "doesPathGoBackwards_loop ps d (i + 1) \<longleftrightarrow>
          (\<exists>j. i + 1 \<le> j \<and> j + 1 < length ps \<and> isLineGoingBackwards (ps ! j) (ps ! (j + 1)) d)"
        using "1.IH" [OF guard refl refl False] .
      have "(\<exists>j. i + 1 \<le> j \<and> j + 1 < length ps \<and> isLineGoingBackwards (ps ! j) (ps ! (j + 1)) d)
          \<longleftrightarrow> (\<exists>j. i \<le> j \<and> j + 1 < length ps \<and> isLineGoingBackwards (ps ! j) (ps ! (j + 1)) d)"
      proof
        assume "\<exists>j. i + 1 \<le> j \<and> j + 1 < length ps \<and> isLineGoingBackwards (ps ! j) (ps ! (j + 1)) d"
        then obtain j where "i + 1 \<le> j" "j + 1 < length ps"
          "isLineGoingBackwards (ps ! j) (ps ! (j + 1)) d" by blast
        then show "\<exists>j. i \<le> j \<and> j + 1 < length ps \<and> isLineGoingBackwards (ps ! j) (ps ! (j + 1)) d"
          by (intro exI [of _ j]) simp
      next
        assume "\<exists>j. i \<le> j \<and> j + 1 < length ps \<and> isLineGoingBackwards (ps ! j) (ps ! (j + 1)) d"
        then obtain j where j: "i \<le> j" "j + 1 < length ps"
          "isLineGoingBackwards (ps ! j) (ps ! (j + 1)) d" by blast
        then have "j \<noteq> i" using False by auto
        then have "i + 1 \<le> j" using j(1) by simp
        then show "\<exists>j. i + 1 \<le> j \<and> j + 1 < length ps \<and> isLineGoingBackwards (ps ! j) (ps ! (j + 1)) d"
          using j by blast
      qed
      then show ?thesis
        using ih False guard by (subst doesPathGoBackwards_loop.simps) (simp add: Let_def)
    qed
  qed
qed

lemma doesPathGoBackwards_iff:
  "doesPathGoBackwards ps l \<longleftrightarrow>
     (\<exists>j. j + 1 < length ps \<and> isLineGoingBackwards (ps ! j) (ps ! (j + 1)) (getLayoutVector l))"
  by (simp add: doesPathGoBackwards_def doesPathGoBackwards_loop_iff)

lemma sqrt_100: "sqrt 100 = 10"
  using real_sqrt_abs [of 10] by simp

text \<open>
  C2: the flow vectors of the four rank directions; a segment goes backwards exactly
  when the product of its delta with the flow vector has a negative component; a path
  goes backwards exactly when one of its segments does; and then \<open>createPointData\<close>
  gives every point of the path, the first and the last too, its smoothed control points.
\<close>

theorem backwards_path_smooths_every_point:
  "getLayoutVector \<lparr>rankDirection = Some TOP_TO_BOTTOM\<rparr> = \<lparr>vx = 0, vy = 1\<rparr>
   \<and> getLayoutVector \<lparr>rankDirection = Some BOTTOM_TO_TOP\<rparr> = \<lparr>vx = 0, vy = - 1\<rparr>
   \<and> getLayoutVector \<lparr>rankDirection = Some LEFT_TO_RIGHT\<rparr> = \<lparr>vx = 1, vy = 0\<rparr>
   \<and> getLayoutVector \<lparr>rankDirection = Some RIGHT_TO_LEFT\<rparr> = \<lparr>vx = - 1, vy = 0\<rparr>
   \<and> (\<forall>p1 p2. isLineGoingBackwards p1 p2 (getLayoutVector l) \<longleftrightarrow>
         (px p2 - px p1) * vx (getLayoutVector l) < 0
         \<or> (py p2 - py p1) * vy (getLayoutVector l) < 0)
   \<and> (doesPathGoBackwards ps l \<longleftrightarrow>
         (\<exists>j. j + 1 < length ps
            \<and> isLineGoingBackwards (ps ! j) (ps ! (j + 1)) (getLayoutVector l)))
   \<and> (doesPathGoBackwards ps l \<longrightarrow>
         (\<exists>ds. createPointData ps l = Inr ds \<and> length ds = length ps
            \<and> (\<forall>k<length ps. getSmoothedControlPoints ps k = Inr (ds ! k))))"
proof -
  have vectors:
    "getLayoutVector \<lparr>rankDirection = Some TOP_TO_BOTTOM\<rparr> = \<lparr>vx = 0, vy = 1\<rparr>"
    "getLayoutVector \<lparr>rankDirection = Some BOTTOM_TO_TOP\<rparr> = \<lparr>vx = 0, vy = - 1\<rparr>"
    "getLayoutVector \<lparr>rankDirection = Some LEFT_TO_RIGHT\<rparr> = \<lparr>vx = 1, vy = 0\<rparr>"
    "getLayoutVector \<lparr>rankDirection = Some RIGHT_TO_LEFT\<rparr> = \<lparr>vx = - 1, vy = 0\<rparr>"
    by (simp_all add: getLayoutVector_def)
  have smooth: "\<exists>ds. createPointData ps l = Inr ds \<and> length ds = length ps
            \<and> (\<forall>k<length ps. getSmoothedControlPoints ps k = Inr (ds ! k))"
    if "doesPathGoBackwards ps l"
    using createPointData_result [of ps l] that by (simp add: pointDataAt_def)
  show ?thesis
    using vectors smooth isLineGoingBackwards_iff doesPathGoBackwards_iff by blast
qed

theorem backwards_path_smooths_every_point_witness:
  "doesPathGoBackwards [\<lparr>px = 0, py = 10\<rparr>, \<lparr>px = 0, py = 0\<rparr>] \<lparr>rankDirection = Some TOP_TO_BOTTOM\<rparr>
   \<and> (\<exists>ds. createPointData [\<lparr>px = 0, py = 10\<rparr>, \<lparr>px = 0, py = 0\<rparr>]
               \<lparr>rankDirection = Some TOP_TO_BOTTOM\<rparr> = Inr ds
          \<and> length ds = 2
          \<and> getSmoothedControlPoints [\<lparr>px = 0, py = 10\<rparr>, \<lparr>px = 0, py = 0\<rparr>] 0 = Inr (ds ! 0)
          \<and> ds ! 0 = \<lparr>point = \<lparr>px = 0, py = 10\<rparr>,
                        incomingControlPoint = \<lparr>px = 0, py = 12\<rparr>,
                        outgoingControlPoint = \<lparr>px = 0, py = 8\<rparr>\<rparr>)"
proof -
  let ?ps = "[\<lparr>px = 0, py = 10\<rparr>, \<lparr>px = 0, py = 0\<rparr>]"
  let ?l = "\<lparr>rankDirection = Some TOP_TO_BOTTOM\<rparr>"
  have bw: "doesPathGoBackwards ?ps ?l"
    by (simp add: doesPathGoBackwards_def doesPathGoBackwards_loop.simps [of _ _ 0]
        isLineGoingBackwards_def createVectorBetweenPoints_def getLayoutVector_def Let_def)
  have s0: "getSmoothedControlPoints ?ps 0 =
      Inr \<lparr>point = \<lparr>px = 0, py = 10\<rparr>, incomingControlPoint = \<lparr>px = 0, py = 12\<rparr>,
           outgoingControlPoint = \<lparr>px = 0, py = 8\<rparr>\<rparr>"
    by (simp add: getSmoothedControlPoints_def array_get_def normalize_Inr
        createVectorBetweenPoints_def length_vector_def multiplyScalar_def round_vector_def
        math_round_def invert_def createNewPointOffsetBy_def SMOOTH_CURVE_FORCE_PX_def
        sqrt_100 Let_def)
  from backwards_path_smooths_every_point [of ?l ?ps] bw
  obtain ds where ds: "createPointData ?ps ?l = Inr ds" "length ds = length ?ps"
    "\<forall>k<length ?ps. getSmoothedControlPoints ?ps k = Inr (ds ! k)"
    by blast
  from ds(3) have "getSmoothedControlPoints ?ps 0 = Inr (ds ! 0)" by simp
  with s0 ds(1,2) bw show ?thesis by simp
qed

section \<open>Properties of the distance test\<close>

















section \<open>Properties of the entry of curvedPath\<close>

lemma getConnectorPointsForNode_set:
  assumes "node_x n = Some cx" "node_y n = Some cy"
  shows "\<exists>c. getConnectorPointsForNode n l = Inr c"
  using assms by (simp add: getConnectorPointsForNode_def Let_def)

lemma curvedPathEntry_slots:
  assumes "getConnectorPointsForNode (src e) l = Inr sc"
    and "getConnectorPointsForNode (dest e) l = Inr dc"
  shows "curvedPathEntry e l =
      Inr (if points e = [] then [Some (connOutput sc), Some (connInput dc)]
           else (map Some (points e))[0 := Some (connOutput sc),
                  length (points e) - 1 := Some (connInput dc)])"
proof (cases "points e = []")
  case True
  then show ?thesis
    using assms
    by (simp add: curvedPathEntry_def array_set_length_def array_set_def Let_def numeral_2_eq_2)
next
  case False
  then have n: "0 < length (points e)" by simp
  then have last: "nat (int (length (points e)) - 1) = length (points e) - 1"
    "\<not> int (length (points e)) - 1 < 0" "length (points e) - 1 < length (points e)"
    by simp_all
  show ?thesis
    using assms False n
    by (simp add: curvedPathEntry_def array_set_def Let_def last)
qed

text \<open>
  C1, as amended: for an edge whose nodes have a position, the entry of \<open>curvedPath\<close>
  leaves \<open>edge.points\<close> with 2 slots when the waypoint list was empty and with the
  list's own length otherwise; so the array has at least 2 points unless the list had
  exactly one point.
\<close>

theorem curvedPathEntry_length:
  "node_x (src e) \<noteq> None \<and> node_y (src e) \<noteq> None
   \<and> node_x (dest e) \<noteq> None \<and> node_y (dest e) \<noteq> None \<longrightarrow>
   (\<exists>slots. curvedPathEntry e l = Inr slots
      \<and> length slots = (if length (points e) = 0 then 2 else length (points e))
      \<and> (length (points e) \<noteq> 1 \<longrightarrow> 2 \<le> length slots))"
proof
  assume set: "node_x (src e) \<noteq> None \<and> node_y (src e) \<noteq> None
   \<and> node_x (dest e) \<noteq> None \<and> node_y (dest e) \<noteq> None"
  from set obtain sx sy tx ty where pos: "node_x (src e) = Some sx" "node_y (src e) = Some sy"
    "node_x (dest e) = Some tx" "node_y (dest e) = Some ty"
    by auto
  obtain sc where sc: "getConnectorPointsForNode (src e) l = Inr sc"
    using getConnectorPointsForNode_set [OF pos(1,2)] by blast
  obtain dc where dc: "getConnectorPointsForNode (dest e) l = Inr dc"
    using getConnectorPointsForNode_set [OF pos(3,4)] by blast
  define slots where "slots = (if points e = [] then [Some (connOutput sc), Some (connInput dc)]
           else (map Some (points e))[0 := Some (connOutput sc),
                  length (points e) - 1 := Some (connInput dc)])"
  have entry: "curvedPathEntry e l = Inr slots"
    by (simp add: slots_def curvedPathEntry_slots [OF sc dc])
  have len: "length slots = (if length (points e) = 0 then 2 else length (points e))"
    by (simp add: slots_def)
  have "length (points e) \<noteq> 1 \<longrightarrow> 2 \<le> length slots"
    unfolding len by presburger
  with entry len show "\<exists>slots. curvedPathEntry e l = Inr slots
      \<and> length slots = (if length (points e) = 0 then 2 else length (points e))
      \<and> (length (points e) \<noteq> 1 \<longrightarrow> 2 \<le> length slots)"
    by blast
qed

theorem curvedPathEntry_length_witness:
  "(\<exists>slots. curvedPathEntry
     \<lparr>src = \<lparr>node_id = ''a'', node_x = Some 50, node_y = Some 25, width = 100, height = 50\<rparr>,
      dest = \<lparr>node_id = ''b'', node_x = Some 50, node_y = Some 125, width = 100, height = 50\<rparr>,
      points = []\<rparr>
     \<lparr>rankDirection = Some TOP_TO_BOTTOM\<rparr> = Inr slots \<and> length slots = 2)
   \<and> (\<exists>slots. curvedPathEntry
     \<lparr>src = \<lparr>node_id = ''a'', node_x = Some 50, node_y = Some 25, width = 100, height = 50\<rparr>,
      dest = \<lparr>node_id = ''b'', node_x = Some 50, node_y = Some 125, width = 100, height = 50\<rparr>,
      points = [\<lparr>px = 0, py = 0\<rparr>, \<lparr>px = 50, py = 75\<rparr>, \<lparr>px = 9, py = 9\<rparr>]\<rparr>
     \<lparr>rankDirection = Some TOP_TO_BOTTOM\<rparr> = Inr slots \<and> length slots = 3)"
  using curvedPathEntry_length [of
     "\<lparr>src = \<lparr>node_id = ''a'', node_x = Some 50, node_y = Some 25, width = 100, height = 50\<rparr>,
      dest = \<lparr>node_id = ''b'', node_x = Some 50, node_y = Some 125, width = 100, height = 50\<rparr>,
      points = []\<rparr>" "\<lparr>rankDirection = Some TOP_TO_BOTTOM\<rparr>"]
    curvedPathEntry_length [of
     "\<lparr>src = \<lparr>node_id = ''a'', node_x = Some 50, node_y = Some 25, width = 100, height = 50\<rparr>,
      dest = \<lparr>node_id = ''b'', node_x = Some 50, node_y = Some 125, width = 100, height = 50\<rparr>,
      points = [\<lparr>px = 0, py = 0\<rparr>, \<lparr>px = 50, py = 75\<rparr>, \<lparr>px = 9, py = 9\<rparr>]\<rparr>"
      "\<lparr>rankDirection = Some TOP_TO_BOTTOM\<rparr>"]
  by auto

text \<open>
  C1 fails for a single-point list: both writes go to slot 0, the array keeps length 1
  and holds the input connector of the destination.
\<close>

theorem curvedPathEntry_single_point:
  "curvedPathEntry
     \<lparr>src = \<lparr>node_id = ''a'', node_x = Some 50, node_y = Some 25, width = 100, height = 50\<rparr>,
      dest = \<lparr>node_id = ''b'', node_x = Some 50, node_y = Some 125, width = 100, height = 50\<rparr>,
      points = [\<lparr>px = 50, py = 75\<rparr>]\<rparr>
     \<lparr>rankDirection = Some TOP_TO_BOTTOM\<rparr>
   = Inr [Some \<lparr>px = 50, py = 100\<rparr>]
   \<and> \<not> (case curvedPathEntry
     \<lparr>src = \<lparr>node_id = ''a'', node_x = Some 50, node_y = Some 25, width = 100, height = 50\<rparr>,
      dest = \<lparr>node_id = ''b'', node_x = Some 50, node_y = Some 125, width = 100, height = 50\<rparr>,
      points = [\<lparr>px = 50, py = 75\<rparr>]\<rparr>
     \<lparr>rankDirection = Some TOP_TO_BOTTOM\<rparr> of Inl er \<Rightarrow> False | Inr slots \<Rightarrow> 2 \<le> length slots)"
  by (simp add: curvedPathEntry_def getConnectorPointsForNode_def array_set_def Let_def)

section \<open>Properties of curvedPath\<close>

lemma createPointData_points:
  "\<exists>ds. createPointData ps l = Inr ds \<and> length ds = length ps
        \<and> (\<forall>k<length ps. point (ds ! k) = ps ! k)"
proof -
  obtain ds where ds: "createPointData ps l = Inr ds" "length ds = length ps"
    "\<forall>k<length ps. pointDataAt ps l (doesPathGoBackwards ps l) k = Inr (ds ! k)"
    using createPointData_result by blast
  have "point (ds ! k) = ps ! k" if "k < length ps" for k
    using pointDataAt_total [OF that, of l "doesPathGoBackwards ps l"] ds(3) that by auto
  then show ?thesis using ds(1,2) by blast
qed

lemma createPathFromPointData_two:
  "createPathFromPointData fmt [d0, d1] =
     moveTo fmt (point d0) @ '' ''
       @ cubicBezierTo fmt (point d1) (outgoingControlPoint d0) (incomingControlPoint d1)"
  by (simp add: createPathFromPointData_def createPathFromPointData_loop.simps [of _ _ 0]
      createPathFromPointData_loop.simps [of _ _ "Suc 0"] Let_def)

lemma createPathFromPointData_short:
  "length ds < 2 \<Longrightarrow> createPathFromPointData fmt ds = ''''"
  by (simp add: createPathFromPointData_def createPathFromPointData_loop.simps [of _ _ 0])

lemma list_of_length_two:
  assumes "length ds = 2"
  shows "ds = [ds ! 0, ds ! 1]"
  using assms by (auto simp: numeral_2_eq_2 length_Suc_conv)

lemma curvedPath_two_points:
  assumes sc: "getConnectorPointsForNode (src e) l = Inr sc"
    and dc: "getConnectorPointsForNode (dest e) l = Inr dc"
    and two: "points e = [] \<or> length (points e) = 2"
  shows "\<exists>c1 c2. curvedPath fmt e (Some l) =
      Inr (moveTo fmt (connOutput sc) @ '' '' @ cubicBezierTo fmt (connInput dc) c1 c2)"
proof -
  let ?ps = "[connOutput sc, connInput dc]"
  have slots: "curvedPathEntry e l = Inr (map Some ?ps)"
  proof (cases "points e = []")
    case True
    then show ?thesis by (simp add: curvedPathEntry_slots [OF sc dc])
  next
    case False
    then have "length (points e) = 2" using two by simp
    then obtain a b where "points e = [a, b]"
      by (auto simp: numeral_2_eq_2 length_Suc_conv)
    then show ?thesis by (simp add: curvedPathEntry_slots [OF sc dc])
  qed
  obtain ds where ds: "createPointData ?ps l = Inr ds" "length ds = length ?ps"
    "\<forall>k<length ?ps. point (ds ! k) = ?ps ! k"
    using createPointData_points by blast
  have len: "length ds = 2" using ds(2) by simp
  have p0: "point (ds ! 0) = connOutput sc" and p1: "point (ds ! 1) = connInput dc"
    using ds(3) by simp_all
  have "ds = [ds ! 0, ds ! 1]" using len by (rule list_of_length_two)
  then have "createPathFromPointData fmt ds =
      moveTo fmt (connOutput sc) @ '' ''
        @ cubicBezierTo fmt (connInput dc) (outgoingControlPoint (ds ! 0))
            (incomingControlPoint (ds ! 1))"
    using createPathFromPointData_two [of fmt "ds ! 0" "ds ! 1"] p0 p1 by simp
  then have "curvedPath fmt e (Some l) =
      Inr (moveTo fmt (connOutput sc) @ '' ''
        @ cubicBezierTo fmt (connInput dc) (outgoingControlPoint (ds ! 0))
            (incomingControlPoint (ds ! 1)))"
    using slots ds(1) by (simp add: curvedPath_def)
  then show ?thesis by blast
qed

lemma fmtInteger_numeral: "fmtInteger (numeral k) = natToString (numeral k)"
  by (simp add: fmtInteger_def intToString_def)

lemma curvedPath_example:
  "curvedPath fmtInteger
     \<lparr>src = \<lparr>node_id = ''a'', node_x = Some 50, node_y = Some 25, width = 100, height = 50\<rparr>,
      dest = \<lparr>node_id = ''b'', node_x = Some 50, node_y = Some 125, width = 100, height = 50\<rparr>,
      points = []\<rparr>
     (Some \<lparr>rankDirection = Some TOP_TO_BOTTOM\<rparr>)
   = Inr ''M 50,50 C 50,70 50,80 50,100''"
  by (simp add: curvedPath_def curvedPathEntry_def getConnectorPointsForNode_def
      array_set_length_def array_set_def numeral_2_eq_2 createPointData_def
      doesPathGoBackwards_def doesPathGoBackwards_loop.simps [of _ _ 0]
      doesPathGoBackwards_loop.simps [of _ _ "Suc 0"]
      isLineGoingBackwards_def createVectorBetweenPoints_def getLayoutVector_def
      createPointData_loop.simps [of _ _ _ 0] createPointData_loop.simps [of _ _ _ "Suc 0"]
      createPointData_loop.simps [of _ _ _ "Suc (Suc 0)"]
      isPointUnimportant_def array_get_def getLayoutCurvedControlPoints_def
      multiplyScalar_def invert_def createNewPointOffsetBy_def LAYOUT_CURVE_FORCE_PX_def
      createPathFromPointData_two moveTo_def cubicBezierTo_def
      fmtInteger_numeral natToString.simps Let_def)

text \<open>
  C3: for a node at \<open>(cx, cy)\<close> the connector points are the centre moved by half the
  height (vertical flows) or half the width (horizontal flows) along the flow axis, the
  input against the flow and the output with it; and for an edge with 2 points or none,
  \<open>curvedPath\<close> returns a move-to at the output connector of the source followed by
  one cubic bezier segment that ends at the input connector of the destination.
\<close>

theorem connectors_and_two_point_path:
  "getConnectorPointsForNode
      \<lparr>node_id = nid, node_x = Some cx, node_y = Some cy, width = w, height = h\<rparr>
      \<lparr>rankDirection = Some TOP_TO_BOTTOM\<rparr>
     = Inr \<lparr>connInput = \<lparr>px = cx, py = cy - h / 2\<rparr>, connOutput = \<lparr>px = cx, py = cy + h / 2\<rparr>\<rparr>
   \<and> getConnectorPointsForNode
      \<lparr>node_id = nid, node_x = Some cx, node_y = Some cy, width = w, height = h\<rparr>
      \<lparr>rankDirection = Some BOTTOM_TO_TOP\<rparr>
     = Inr \<lparr>connInput = \<lparr>px = cx, py = cy + h / 2\<rparr>, connOutput = \<lparr>px = cx, py = cy - h / 2\<rparr>\<rparr>
   \<and> getConnectorPointsForNode
      \<lparr>node_id = nid, node_x = Some cx, node_y = Some cy, width = w, height = h\<rparr>
      \<lparr>rankDirection = Some LEFT_TO_RIGHT\<rparr>
     = Inr \<lparr>connInput = \<lparr>px = cx - w / 2, py = cy\<rparr>, connOutput = \<lparr>px = cx + w / 2, py = cy\<rparr>\<rparr>
   \<and> getConnectorPointsForNode
      \<lparr>node_id = nid, node_x = Some cx, node_y = Some cy, width = w, height = h\<rparr>
      \<lparr>rankDirection = Some RIGHT_TO_LEFT\<rparr>
     = Inr \<lparr>connInput = \<lparr>px = cx + w / 2, py = cy\<rparr>, connOutput = \<lparr>px = cx - w / 2, py = cy\<rparr>\<rparr>
   \<and> (getConnectorPointsForNode (src e) l = Inr sc
        \<and> getConnectorPointsForNode (dest e) l = Inr dc
        \<and> (points e = [] \<or> length (points e) = 2) \<longrightarrow>
        (\<exists>(c1::point) (c2::point). curvedPath fmt e (Some l) =
           Inr (''M '' @ fmt (px (connOutput sc)) @ '','' @ fmt (py (connOutput sc))
                @ '' C '' @ fmt (px c1) @ '','' @ fmt (py c1)
                @ '' '' @ fmt (px c2) @ '','' @ fmt (py c2)
                @ '' '' @ fmt (px (connInput dc)) @ '','' @ fmt (py (connInput dc)))))"
proof -
  have path: "\<exists>(c1::point) (c2::point). curvedPath fmt e (Some l) =
           Inr (''M '' @ fmt (px (connOutput sc)) @ '','' @ fmt (py (connOutput sc))
                @ '' C '' @ fmt (px c1) @ '','' @ fmt (py c1)
                @ '' '' @ fmt (px c2) @ '','' @ fmt (py c2)
                @ '' '' @ fmt (px (connInput dc)) @ '','' @ fmt (py (connInput dc)))"
    if "getConnectorPointsForNode (src e) l = Inr sc"
      "getConnectorPointsForNode (dest e) l = Inr dc"
      "points e = [] \<or> length (points e) = 2"
    using curvedPath_two_points [OF that, of fmt]
    by (simp add: moveTo_def cubicBezierTo_def)
  show ?thesis
    using path by (simp add: getConnectorPointsForNode_def)
qed

theorem connectors_and_two_point_path_witness:
  "getConnectorPointsForNode
      \<lparr>node_id = ''a'', node_x = Some 50, node_y = Some 25, width = 100, height = 50\<rparr>
      \<lparr>rankDirection = Some TOP_TO_BOTTOM\<rparr>
     = Inr \<lparr>connInput = \<lparr>px = 50, py = 0\<rparr>, connOutput = \<lparr>px = 50, py = 50\<rparr>\<rparr>
   \<and> getConnectorPointsForNode
      \<lparr>node_id = ''b'', node_x = Some 50, node_y = Some 125, width = 100, height = 50\<rparr>
      \<lparr>rankDirection = Some TOP_TO_BOTTOM\<rparr>
     = Inr \<lparr>connInput = \<lparr>px = 50, py = 100\<rparr>, connOutput = \<lparr>px = 50, py = 150\<rparr>\<rparr>
   \<and> (\<exists>(c1::point) (c2::point). curvedPath fmtInteger
     \<lparr>src = \<lparr>node_id = ''a'', node_x = Some 50, node_y = Some 25, width = 100, height = 50\<rparr>,
      dest = \<lparr>node_id = ''b'', node_x = Some 50, node_y = Some 125, width = 100, height = 50\<rparr>,
      points = []\<rparr>
     (Some \<lparr>rankDirection = Some TOP_TO_BOTTOM\<rparr>)
       = Inr (''M 50,50 C '' @ fmtInteger (px c1) @ '','' @ fmtInteger (py c1)
              @ '' '' @ fmtInteger (px c2) @ '','' @ fmtInteger (py c2) @ '' 50,100''))
   \<and> curvedPath fmtInteger
     \<lparr>src = \<lparr>node_id = ''a'', node_x = Some 50, node_y = Some 25, width = 100, height = 50\<rparr>,
      dest = \<lparr>node_id = ''b'', node_x = Some 50, node_y = Some 125, width = 100, height = 50\<rparr>,
      points = []\<rparr>
     (Some \<lparr>rankDirection = Some TOP_TO_BOTTOM\<rparr>)
       = Inr ''M 50,50 C 50,70 50,80 50,100''"
proof -
  let ?a = "\<lparr>node_id = ''a'', node_x = Some 50, node_y = Some 25, width = 100, height = 50\<rparr>"
  let ?b = "\<lparr>node_id = ''b'', node_x = Some 50, node_y = Some 125, width = 100, height = 50\<rparr>"
  let ?e = "\<lparr>src = ?a, dest = ?b, points = []\<rparr>"
  let ?l = "\<lparr>rankDirection = Some TOP_TO_BOTTOM\<rparr>"
  let ?sc = "\<lparr>connInput = \<lparr>px = 50, py = 0\<rparr>, connOutput = \<lparr>px = 50, py = 50\<rparr>\<rparr>"
  let ?dc = "\<lparr>connInput = \<lparr>px = 50, py = 100\<rparr>, connOutput = \<lparr>px = 50, py = 150\<rparr>\<rparr>"
  note at_a = connectors_and_two_point_path [where nid = "''a''" and cx = 50 and cy = 25
      and w = 100 and h = 50 and e = ?e and l = ?l and sc = ?sc and dc = ?dc
      and fmt = fmtInteger]
  note at_b = connectors_and_two_point_path [where nid = "''b''" and cx = 50 and cy = 125
      and w = 100 and h = 50 and e = ?e and l = ?l and sc = ?sc and dc = ?dc
      and fmt = fmtInteger]
  have a: "getConnectorPointsForNode ?a ?l = Inr ?sc"
    using at_a by simp
  have b: "getConnectorPointsForNode ?b ?l = Inr ?dc"
    using at_b by simp
  have "getConnectorPointsForNode (src ?e) ?l = Inr ?sc
      \<and> getConnectorPointsForNode (dest ?e) ?l = Inr ?dc
      \<and> (points ?e = [] \<or> length (points ?e) = 2)"
    using a b by simp
  with at_a have "\<exists>(c1::point) (c2::point). curvedPath fmtInteger ?e (Some ?l) =
           Inr (''M '' @ fmtInteger (px (connOutput ?sc)) @ '','' @ fmtInteger (py (connOutput ?sc))
                @ '' C '' @ fmtInteger (px c1) @ '','' @ fmtInteger (py c1)
                @ '' '' @ fmtInteger (px c2) @ '','' @ fmtInteger (py c2)
                @ '' '' @ fmtInteger (px (connInput ?dc)) @ '','' @ fmtInteger (py (connInput ?dc)))"
    by blast
  then have c: "\<exists>(c1::point) (c2::point). curvedPath fmtInteger ?e (Some ?l)
       = Inr (''M 50,50 C '' @ fmtInteger (px c1) @ '','' @ fmtInteger (py c1)
              @ '' '' @ fmtInteger (px c2) @ '','' @ fmtInteger (py c2) @ '' 50,100'')"
    by (simp add: fmtInteger_numeral natToString.simps)
  show ?thesis using a b c curvedPath_example by blast
qed

section \<open>Properties of trianglePoints\<close>

lemma trianglePoints_RangeError_iff:
  "trianglePoints fmt e l = Inl RangeError
     \<longleftrightarrow> falsy (node_x (dest e)) \<or> falsy (node_y (dest e))"
  by (auto simp: trianglePoints_def falsy_def Let_def split: option.splits)

lemma trianglePoints_returns:
  assumes "node_x (dest e) = Some cx" "node_y (dest e) = Some cy" "cx \<noteq> 0" "cy \<noteq> 0"
  shows "\<exists>s. trianglePoints fmt e l = Inr s"
  using assms by (simp add: trianglePoints_def falsy_def Let_def)

text \<open>
  C5 fails on the code: a destination node whose assigned position has the coordinate
  0 makes \<open>trianglePoints\<close> throw the RangeError, because \<open>!edge.dest.x\<close> is true for
  0 as well as for an unset position.
\<close>

theorem trianglePoints_throws_at_zero:
  "trianglePoints fmtInteger
     \<lparr>src = \<lparr>node_id = ''a'', node_x = Some 0, node_y = Some 25, width = 100, height = 50\<rparr>,
      dest = \<lparr>node_id = ''b'', node_x = Some 0, node_y = Some 125, width = 100, height = 50\<rparr>,
      points = []\<rparr>
     \<lparr>rankDirection = Some TOP_TO_BOTTOM\<rparr>
   = Inl RangeError"
  by (simp add: trianglePoints_def falsy_def)

section \<open>Properties of the camera\<close>

lemma easeInAndOut_1: "easeInAndOut 1 = 1"
  by (simp add: easeInAndOut_def)

lemma frameFn_last:
  assumes "0 < anim_durationMs a" "anim_durationMs a \<le> t"
  shows "frameFn (anim_start a + t) a e = Inr (anim_callback a 1 e, None)"
  using assms by (simp add: frameFn_def frameProgress_def easeInAndOut_1 Let_def min_def)

lemma frameFn_inner:
  assumes "0 \<le> t" "t < anim_durationMs a"
  shows "frameFn (anim_start a + t) a e
           = Inr (anim_callback a (easeInAndOut (t / anim_durationMs a)) e, Some a)"
  using assms by (simp add: frameFn_def frameProgress_def Let_def min_def)

lemma math_round_near: "math_round r \<in> \<int> \<and> \<bar>math_round r - r\<bar> \<le> 1 / 2"
proof -
  define k where "k = \<lfloor>r + 1 / 2\<rfloor>"
  have "of_int k \<le> r + 1 / 2" "r + 1 / 2 < of_int k + 1"
    unfolding k_def by linarith+
  then have "\<bar>of_int k - r\<bar> \<le> 1 / 2"
    by linarith
  then show ?thesis
    unfolding math_round_def k_def by simp
qed

lemma beforePanHook_rounds:
  "px (beforePanHook old p) \<in> \<int> \<and> py (beforePanHook old p) \<in> \<int>
   \<and> \<bar>px (beforePanHook old p) - px p\<bar> \<le> 1 / 2
   \<and> \<bar>py (beforePanHook old p) - py p\<bar> \<le> 1 / 2"
  using math_round_near [of "px p"] math_round_near [of "py p"]
  by (simp add: beforePanHook_def)

lemma destroy_channels:
  "stopSmoothPanFn (destroy api c) = None
   \<and> stopSmoothZoomFn (destroy api c) = None
   \<and> stopSmoothPanAndZoomFn (destroy api c) = stopSmoothPanAndZoomFn c"
  by (simp add: destroy_def Let_def)

lemma reset_channels:
  "stopSmoothPanFn (reset api c) = None
   \<and> stopSmoothZoomFn (reset api c) = None
   \<and> stopSmoothPanAndZoomFn (reset api c) = stopSmoothPanAndZoomFn c"
  by (simp add: reset_def Let_def)

lemma newGraphCamera_example:
  "newGraphCamera standInApi isMac exampleOptions = Inr (exampleCamera isMac)"
  by (simp add: newGraphCamera_def exampleOptions_def exampleCamera_def reset_def
      fitWithoutZoomingIn_def standInApi_def FIT_PADDING_PERCENT_def Let_def)

text \<open>
  C6 fails on the code: \<open>destroy\<close> and \<open>reset\<close> call the stop functions of the pan
  and of the zoom channel, and never \<open>stopSmoothPanAndZoomFn\<close>. A camera is built,
  \<open>smoothReset(1000)\<close> starts an animation on the combined channel, and after
  \<open>destroy()\<close> (and after \<open>reset()\<close>) that animation is still active: its frame at
  500 ms pans and zooms the destroyed engine.
\<close>

theorem destroy_keeps_combined_animation:
  "newGraphCamera standInApi False exampleOptions = Inr (exampleCamera False)
   \<and> smoothReset standInApi 0 1000 (exampleCamera False) = Inr exampleAnimating
   \<and> stopSmoothPanAndZoomFn exampleAnimating \<noteq> None
   \<and> stopSmoothPanFn (destroy standInApi exampleAnimating) = None
   \<and> stopSmoothZoomFn (destroy standInApi exampleAnimating) = None
   \<and> stopSmoothPanAndZoomFn (destroy standInApi exampleAnimating) \<noteq> None
   \<and> stopSmoothPanAndZoomFn (reset standInApi exampleAnimating) \<noteq> None
   \<and> map_sum id panZoom (smoothPanAndZoomFrame 500 (destroy standInApi exampleAnimating))
       = Inr \<lparr>se_options = Some (panZoomOptionsOf False exampleOptions),
              se_pan = \<lparr>px = 8, py = 78\<rparr>, se_zoom = 18 / 25, se_destroyed = True\<rparr>"
proof -
  have started: "smoothReset standInApi 0 1000 (exampleCamera False) = Inr exampleAnimating"
    by (simp add: smoothReset_def smoothCenterAndFitWithoutZoomingIn_def divide_checked_def
        exampleAnimating_def exampleCamera_def standInApi_def FIT_PADDING_PERCENT_def Let_def)
  have channels: "stopSmoothPanAndZoomFn exampleAnimating \<noteq> None"
    "stopSmoothPanFn (destroy standInApi exampleAnimating) = None"
    "stopSmoothZoomFn (destroy standInApi exampleAnimating) = None"
    "stopSmoothPanAndZoomFn (destroy standInApi exampleAnimating) \<noteq> None"
    "stopSmoothPanAndZoomFn (reset standInApi exampleAnimating) \<noteq> None"
    by (simp_all add: destroy_channels reset_channels exampleAnimating_def smoothPanAndZoom_def
        Let_def)
  have frame: "map_sum id panZoom (smoothPanAndZoomFrame 500 (destroy standInApi exampleAnimating))
       = Inr \<lparr>se_options = Some (panZoomOptionsOf False exampleOptions),
              se_pan = \<lparr>px = 8, py = 78\<rparr>, se_zoom = 18 / 25, se_destroyed = True\<rparr>"
    by (simp add: exampleAnimating_def exampleCamera_def smoothPanAndZoom_def animateOver_def
        durationOrDefault_def destroy_def standInApi_def smoothPanAndZoomFrame_def frameFn_def
        frameProgress_def easeInAndOut_def Let_def)
  show ?thesis
    using newGraphCamera_example [of False] started channels frame by simp
qed

text \<open>
  C7 as stated fails: on the Macintosh platform the sensitivity that the constructor
  hands to the engine is 0.09, and \<open>zoomIn\<close> still multiplies the zoom by 1.4, not
  by 1.09. The camera is built on a Macintosh with the stand-in engine (zoom 0.96 after
  the constructor's reset), and the last frame of \<open>zoomIn\<close> is run.
\<close>

theorem zoomIn_on_mac:
  "newGraphCamera standInApi True exampleOptions = Inr (exampleCamera True)
   \<and> map_option zoomScaleSensitivity (se_options (panZoom (exampleCamera True))) = Some (9 / 100)
   \<and> getZoom standInApi (exampleCamera True) = 24 / 25
   \<and> map_sum id (getZoom standInApi)
        (smoothZoomFrame 250 (zoomIn standInApi 0 (exampleCamera True)))
       = Inr (24 / 25 * (1 + 4 / 10))
   \<and> map_sum id (getZoom standInApi)
        (smoothZoomFrame 250 (zoomIn standInApi 0 (exampleCamera True)))
       \<noteq> Inr (24 / 25 * (1 + 9 / 100))"
proof -
  have frame: "map_sum id (getZoom standInApi)
        (smoothZoomFrame 250 (zoomIn standInApi 0 (exampleCamera True)))
       = Inr (24 / 25 * (1 + 4 / 10))"
    by (simp add: exampleCamera_def standInApi_def getZoom_def zoomIn_def smoothZoom_def
        animateOver_def durationOrDefault_def smoothZoomFrame_def frameFn_def frameProgress_def
        easeInAndOut_def ZOOM_SENSITIVITY_def Let_def)
  have opts: "map_option zoomScaleSensitivity (se_options (panZoom (exampleCamera True)))
      = Some (9 / 100)"
    by (simp add: exampleCamera_def panZoomOptionsOf_def MAC_ZOOM_SENSITIVITY_def)
  have z: "getZoom standInApi (exampleCamera True) = 24 / 25"
    by (simp add: exampleCamera_def getZoom_def standInApi_def)
  show ?thesis
    using newGraphCamera_example [of True] opts z by (simp add: frame)
qed

text \<open>
  C7, as amended: on every platform \<open>zoomIn\<close> starts an animation of 250 ms on the
  zoom channel whose frames ask the engine for the zoom
  \<open>z + easeInAndOut(t / 250) * (z * 1.4 - z)\<close> and whose last frame, at 250 ms or
  later, asks for \<open>z * (1 + 0.4)\<close>, where \<open>z\<close> is the current zoom; \<open>zoomOut\<close> does the same with
  \<open>z * (1 / (1 + 0.4))\<close>. The platform only decides the \<open>zoomScaleSensitivity\<close>
  option of the engine: 0.09 on a Macintosh, 0.4 elsewhere.
\<close>

theorem zoomIn_zoomOut_spec:
  "(\<exists>a. stopSmoothZoomFn (zoomIn api now c) = Some a
       \<and> anim_start a = now \<and> anim_durationMs a = 250
       \<and> (\<forall>e t. 250 \<le> t \<longrightarrow>
             frameFn (now + t) a e
               = Inr (pz_zoom api (getZoom api c * (1 + 4 / 10)) e, None))
       \<and> (\<forall>e t. 0 \<le> t \<and> t < 250 \<longrightarrow>
             frameFn (now + t) a e
               = Inr (pz_zoom api
                        (getZoom api c
                          + easeInAndOut (t / 250)
                            * (getZoom api c * (1 + 4 / 10) - getZoom api c)) e,
                      Some a)))
   \<and> (\<exists>a. stopSmoothZoomFn (zoomOut api now c) = Some a
       \<and> anim_start a = now \<and> anim_durationMs a = 250
       \<and> (\<forall>e t. 250 \<le> t \<longrightarrow>
             frameFn (now + t) a e
               = Inr (pz_zoom api (getZoom api c * (1 / (1 + 4 / 10))) e, None))
       \<and> (\<forall>e t. 0 \<le> t \<and> t < 250 \<longrightarrow>
             frameFn (now + t) a e
               = Inr (pz_zoom api
                        (getZoom api c
                          + easeInAndOut (t / 250)
                            * (getZoom api c * (1 / (1 + 4 / 10)) - getZoom api c)) e,
                      Some a)))
   \<and> (\<forall>isMac options.
         zoomScaleSensitivity (panZoomOptionsOf isMac options)
           = (if isMac then 9 / 100 else 4 / 10))"
proof -
  define z where "z = pz_getZoom api (panZoom c)"
  define anim where "anim target =
      animateOver now 250 (\<lambda>progress. pz_zoom api (z + progress * (target - z)))" for target
  have start: "anim_start (anim target) = now" "anim_durationMs (anim target) = 250"
    "anim_callback (anim target) = (\<lambda>progress. pz_zoom api (z + progress * (target - z)))"
    for target
    by (simp_all add: anim_def animateOver_def)
  have last: "frameFn (now + t) (anim target) e = Inr (pz_zoom api target e, None)"
    if "250 \<le> t" for target e t
    using frameFn_last [of "anim target" t e] that by (simp add: start)
  have inner: "frameFn (now + t) (anim target) e
      = Inr (pz_zoom api (z + easeInAndOut (t / 250) * (target - z)) e, Some (anim target))"
    if "0 \<le> t \<and> t < 250" for target e t
    using frameFn_inner [of t "anim target" e] that by (simp add: start)
  have zin: "stopSmoothZoomFn (zoomIn api now c) = Some (anim (z * (1 + 4 / 10)))"
    by (simp add: zoomIn_def smoothZoom_def anim_def z_def durationOrDefault_def
        ZOOM_SENSITIVITY_def Let_def)
  have zout: "stopSmoothZoomFn (zoomOut api now c) = Some (anim (z * (1 / (1 + 4 / 10))))"
    by (simp add: zoomOut_def smoothZoom_def anim_def z_def durationOrDefault_def
        ZOOM_SENSITIVITY_def Let_def)
  have opts: "zoomScaleSensitivity (panZoomOptionsOf isMac options)
           = (if isMac then 9 / 100 else 4 / 10)" for isMac options
    by (simp add: panZoomOptionsOf_def MAC_ZOOM_SENSITIVITY_def ZOOM_SENSITIVITY_def)
  have gz: "getZoom api c = z" by (simp add: getZoom_def z_def)
  show ?thesis
    unfolding gz using zin zout start(1,2) last inner opts by blast
qed

theorem zoomIn_zoomOut_spec_witness:
  "(\<exists>a. stopSmoothZoomFn
           (zoomIn standInApi 0
              \<lparr>panZoom = \<lparr>se_options = None, se_pan = \<lparr>px = 0, py = 0\<rparr>, se_zoom = 1,
                           se_destroyed = False\<rparr>,
               resizeSub = False, onPanCompleted = False, stopSmoothPanFn = None,
               stopSmoothZoomFn = None, stopSmoothPanAndZoomFn = None\<rparr>) = Some a
       \<and> anim_durationMs a = 250
       \<and> frameFn 125 a
            \<lparr>se_options = None, se_pan = \<lparr>px = 0, py = 0\<rparr>, se_zoom = 1, se_destroyed = False\<rparr>
           = Inr (\<lparr>se_options = None, se_pan = \<lparr>px = 0, py = 0\<rparr>, se_zoom = 6 / 5,
                    se_destroyed = False\<rparr>, Some a)
       \<and> frameFn 250 a
            \<lparr>se_options = None, se_pan = \<lparr>px = 0, py = 0\<rparr>, se_zoom = 6 / 5, se_destroyed = False\<rparr>
           = Inr (\<lparr>se_options = None, se_pan = \<lparr>px = 0, py = 0\<rparr>, se_zoom = 7 / 5,
                    se_destroyed = False\<rparr>, None))"
proof -
  let ?e = "\<lparr>se_options = None, se_pan = \<lparr>px = 0, py = 0\<rparr>, se_zoom = 1, se_destroyed = False\<rparr>"
  let ?e' = "\<lparr>se_options = None, se_pan = \<lparr>px = 0, py = 0\<rparr>, se_zoom = 6 / 5,
              se_destroyed = False\<rparr>"
  let ?c = "\<lparr>panZoom = ?e, resizeSub = False, onPanCompleted = False, stopSmoothPanFn = None,
             stopSmoothZoomFn = None, stopSmoothPanAndZoomFn = None\<rparr>"
  from zoomIn_zoomOut_spec [of standInApi 0 ?c]
  obtain a where a: "stopSmoothZoomFn (zoomIn standInApi 0 ?c) = Some a"
    "anim_durationMs a = 250"
    "\<forall>e t. 250 \<le> t \<longrightarrow>
       frameFn (0 + t) a e
         = Inr (pz_zoom standInApi (getZoom standInApi ?c * (1 + 4 / 10)) e, None)"
    "\<forall>e t. 0 \<le> t \<and> t < 250 \<longrightarrow>
       frameFn (0 + t) a e
         = Inr (pz_zoom standInApi
                  (getZoom standInApi ?c
                    + easeInAndOut (t / 250)
                      * (getZoom standInApi ?c * (1 + 4 / 10) - getZoom standInApi ?c)) e,
                Some a)"
    by blast
  have mid: "frameFn 125 a ?e = Inr (?e', Some a)"
    using a(4) [rule_format, of 125 ?e]
    by (simp add: standInApi_def getZoom_def easeInAndOut_def)
  have fin: "frameFn 250 a ?e' = Inr (?e'\<lparr>se_zoom := 7 / 5\<rparr>, None)"
    using a(3) [rule_format, of 250 ?e']
    by (simp add: standInApi_def getZoom_def)
  show ?thesis using a(1,2) mid fin by auto
qed

end
